theory Spec2Isabelle
  imports Complex_Main
begin

section \<open>The JavaScript values the client computes with\<close>

text \<open>
  The client of \<^verbatim>\<open>node/fidelity-helper/src/fidelity.ts\<close> runs on a JavaScript engine.
  The parts of the engine it relies on are modelled here from the ECMAScript language
  specification: strings, IEEE 754 binary64 numbers, \<^verbatim>\<open>Date\<close> and its calendar, JSON.
  A string is a list of characters; a \<open>char\<close> is one code unit below 256, so the model
  covers the strings whose code units are all in that range.
\<close>

subsection \<open>Strings\<close>

definition is_digit :: "char \<Rightarrow> bool" where
  "is_digit c = (48 \<le> (of_char c :: nat) \<and> (of_char c :: nat) \<le> 57)"

definition digit_val :: "char \<Rightarrow> int" where
  "digit_val c = of_char c - 48"

definition digits_val :: "string \<Rightarrow> int" where
  "digits_val ds = foldl (\<lambda>acc c. 10 * acc + digit_val c) 0 ds"

text \<open>White space and line terminators of ECMAScript (those below 256): TAB, LF, VT, FF,
  CR, SP and NBSP. \<^verbatim>\<open>String.prototype.trim\<close> removes them at both ends.\<close>

definition is_ws :: "char \<Rightarrow> bool" where
  "is_ws c = ((of_char c :: nat) \<in> {9, 10, 11, 12, 13, 32, 160})"

definition trim :: "string \<Rightarrow> string" where
  "trim s = rev (dropWhile is_ws (rev (dropWhile is_ws s)))"

text \<open>\<^verbatim>\<open>String.prototype.toLowerCase\<close>: A-Z, and the capital letters of Latin-1
  (U+00C0 to U+00DE without the multiplication sign U+00D7) move up by 32.\<close>

definition lower_char :: "char \<Rightarrow> char" where
  "lower_char c =
     (let n = (of_char c :: nat)
      in if (65 \<le> n \<and> n \<le> 90) \<or> (192 \<le> n \<and> n \<le> 222 \<and> n \<noteq> 215)
         then char_of (n + 32) else c)"

definition toLowerCase :: "string \<Rightarrow> string" where
  "toLowerCase s = map lower_char s"

text \<open>\<^verbatim>\<open>Array.prototype.join\<close> on an array of strings.\<close>

fun join :: "string \<Rightarrow> string list \<Rightarrow> string" where
  "join sep [] = []"
| "join sep [x] = x"
| "join sep (x # y # ys) = x @ sep @ join sep (y # ys)"

text \<open>The decimal rendering of an integer, which is what \<^verbatim>\<open>Number.prototype.toString\<close>
  and a template literal give for an integral number below \<open>10^21\<close> in magnitude.\<close>

function show_digits :: "int \<Rightarrow> string" where
  "show_digits n = (if n < 10 then [char_of (48 + n)]
                    else show_digits (n div 10) @ [char_of (48 + n mod 10)])"
  by pat_completeness auto
termination
  by (relation "measure nat") auto

definition show_int :: "int \<Rightarrow> string" where
  "show_int i = (if i < 0 then CHR ''-'' # show_digits (- i) else show_digits i)"

subsection \<open>Numbers: IEEE 754 binary64\<close>

text \<open>
  A Number is NaN, an infinity, negative zero, or a finite value; \<open>Finite 0\<close> is positive
  zero. A finite value is kept as the rational it denotes. Every arithmetic operation
  computes the exact rational result and rounds it to the nearest binary64 value, ties to
  even (\<open>fl_round\<close>): 53 bits of precision, least exponent \<open>-1074\<close>, overflow from
  \<open>2^1024\<close>.
\<close>

datatype jsnum = NaN | Infinity | NegInfinity | NegZero | Finite rat

definition pow2 :: "int \<Rightarrow> rat" where
  "pow2 e = (if 0 \<le> e then 2 ^ nat e else 1 / 2 ^ nat (- e))"

function bitlen :: "int \<Rightarrow> int" where
  "bitlen n = (if n \<le> 0 then 0 else 1 + bitlen (n div 2))"
  by pat_completeness auto
termination
  by (relation "measure nat") auto

definition ilog2 :: "rat \<Rightarrow> int" where
  \<comment> \<open>\<open>\<lfloor>log\<^sub>2 x\<rfloor>\<close> for \<open>x > 0\<close>\<close>
  "ilog2 x =
     (let (a, b) = quotient_of x;
          k = bitlen a - bitlen b
      in if pow2 k \<le> x then k else k - 1)"

definition round_half_even :: "rat \<Rightarrow> int" where
  "round_half_even q =
     (let f = \<lfloor>q\<rfloor>; r = q - of_int f
      in if r < 1 / 2 then f else if 1 / 2 < r then f + 1
         else if even f then f else f + 1)"

definition fl_round :: "rat \<Rightarrow> jsnum" where
  "fl_round x =
     (if x = 0 then Finite 0
      else let a = \<bar>x\<bar>;
               e = max (ilog2 a - 52) (- 1074);
               r = of_int (round_half_even (a / pow2 e)) * pow2 e
           in if pow2 1024 \<le> r then (if 0 < x then Infinity else NegInfinity)
              else if r = 0 then (if x < 0 then NegZero else Finite 0)
              else Finite (if x < 0 then - r else r))"

definition is_neg :: "jsnum \<Rightarrow> bool" where
  \<comment> \<open>the sign bit\<close>
  "is_neg x = (case x of NaN \<Rightarrow> False | Infinity \<Rightarrow> False | NegInfinity \<Rightarrow> True
               | NegZero \<Rightarrow> True | Finite q \<Rightarrow> q < 0)"

definition is_zero :: "jsnum \<Rightarrow> bool" where
  "is_zero x = (x = NegZero \<or> x = Finite 0)"

definition is_inf :: "jsnum \<Rightarrow> bool" where
  "is_inf x = (x = Infinity \<or> x = NegInfinity)"

definition signed_zero :: "bool \<Rightarrow> jsnum" where
  "signed_zero neg = (if neg then NegZero else Finite 0)"

definition signed_inf :: "bool \<Rightarrow> jsnum" where
  "signed_inf neg = (if neg then NegInfinity else Infinity)"

definition rat_of :: "jsnum \<Rightarrow> rat" where
  \<comment> \<open>the value of a finite number\<close>
  "rat_of x = (case x of Finite q \<Rightarrow> q | _ \<Rightarrow> 0)"

definition isNaN :: "jsnum \<Rightarrow> bool" where
  "isNaN x = (x = NaN)"

definition js_mul :: "jsnum \<Rightarrow> jsnum \<Rightarrow> jsnum" where
  "js_mul x y =
     (if x = NaN \<or> y = NaN then NaN
      else if (is_inf x \<and> is_zero y) \<or> (is_zero x \<and> is_inf y) then NaN
      else if is_inf x \<or> is_inf y then signed_inf (is_neg x \<noteq> is_neg y)
      else if is_zero x \<or> is_zero y then signed_zero (is_neg x \<noteq> is_neg y)
      else fl_round (rat_of x * rat_of y))"

definition js_div :: "jsnum \<Rightarrow> jsnum \<Rightarrow> jsnum" where
  "js_div x y =
     (if x = NaN \<or> y = NaN then NaN
      else if (is_inf x \<and> is_inf y) \<or> (is_zero x \<and> is_zero y) then NaN
      else if is_inf x \<or> is_zero y then signed_inf (is_neg x \<noteq> is_neg y)
      else if is_inf y \<or> is_zero x then signed_zero (is_neg x \<noteq> is_neg y)
      else fl_round (rat_of x / rat_of y))"

definition js_add :: "jsnum \<Rightarrow> jsnum \<Rightarrow> jsnum" where
  "js_add x y =
     (if x = NaN \<or> y = NaN then NaN
      else if is_inf x \<and> is_inf y then (if x = y then x else NaN)
      else if is_inf x then x
      else if is_inf y then y
      else if is_zero x \<and> is_zero y then signed_zero (is_neg x \<and> is_neg y)
      else if rat_of x + rat_of y = 0 then Finite 0
      else fl_round (rat_of x + rat_of y))"

definition num_of_int :: "int \<Rightarrow> jsnum" where
  \<comment> \<open>an integer that a Number holds exactly\<close>
  "num_of_int i = Finite (of_int i)"

text \<open>\<^verbatim>\<open>Math.round\<close>: the nearest integer, a tie going towards \<open>+\<infinity>\<close>; the result is
  negative zero for a negative argument that rounds to zero.\<close>

definition Math_round :: "jsnum \<Rightarrow> jsnum" where
  "Math_round x =
     (case x of
        Finite q \<Rightarrow>
          (let n = \<lfloor>q + 1 / 2\<rfloor>
           in if n = 0 then signed_zero (q < 0) else Finite (of_int n))
      | _ \<Rightarrow> x)"

text \<open>The loose inequality \<^verbatim>\<open>x != 0\<close> of two Numbers: NaN differs from everything, both
  zeros equal \<open>0\<close>.\<close>

definition ne_zero :: "jsnum \<Rightarrow> bool" where
  "ne_zero x = (\<not> is_zero x)"

text \<open>
  \<^verbatim>\<open>parseFloat\<close>: leading white space is skipped, then the longest prefix that is a
  \<^verbatim>\<open>StrDecimalLiteral\<close> is read (an optional sign, then \<^verbatim>\<open>Infinity\<close> or decimal digits with
  an optional fraction and an optional exponent), and its mathematical value is rounded to a
  Number. No such prefix gives NaN. An exponent is part of the prefix only when it has a
  digit.
\<close>

definition exponent_of :: "string \<Rightarrow> int" where
  "exponent_of s =
     (case s of
        [] \<Rightarrow> 0
      | c # r \<Rightarrow>
          if c = CHR ''e'' \<or> c = CHR ''E'' then
            (case r of
               [] \<Rightarrow> 0
             | d # r' \<Rightarrow>
                 if d = CHR ''-'' then
                   (if takeWhile is_digit r' = [] then 0
                    else - digits_val (takeWhile is_digit r'))
                 else if d = CHR ''+'' then digits_val (takeWhile is_digit r')
                 else digits_val (takeWhile is_digit r))
          else 0)"

definition parseFloat :: "string \<Rightarrow> jsnum" where
  "parseFloat s =
     (let t = dropWhile is_ws s;
          neg = (t \<noteq> [] \<and> hd t = CHR ''-'');
          r = (if t \<noteq> [] \<and> (hd t = CHR ''-'' \<or> hd t = CHR ''+'') then tl t else t)
      in if take 8 r = ''Infinity'' then signed_inf neg
         else
           let ip = takeWhile is_digit r;
               r1 = dropWhile is_digit r;
               dot = (r1 \<noteq> [] \<and> hd r1 = CHR ''.'');
               fp = (if dot then takeWhile is_digit (tl r1) else []);
               r2 = (if dot then dropWhile is_digit (tl r1) else r1)
           in if ip = [] \<and> fp = [] then NaN
              else
                let mv = of_int (digits_val (ip @ fp))
                           * (if 0 \<le> exponent_of r2 - int (length fp)
                              then 10 ^ nat (exponent_of r2 - int (length fp))
                              else 1 / 10 ^ nat (int (length fp) - exponent_of r2))
                in if mv = 0 then signed_zero neg
                   else fl_round (if neg then - mv else mv))"

subsection \<open>Dates and the calendar\<close>

text \<open>
  A \<^verbatim>\<open>Date\<close> holds a time value: NaN (an invalid date) or a whole number of milliseconds
  since the epoch, at most \<open>8.64 * 10^15\<close> in magnitude (\<open>TimeClip\<close>). The calendar
  functions are those of the ECMAScript specification (Day, DayFromYear, YearFromTime,
  MonthFromTime, DateFromTime, MakeDay), on day numbers.
\<close>

datatype Date = Invalid_Date | Date_ms int

definition msPerDay :: int where
  "msPerDay = 86400000"

definition Day :: "int \<Rightarrow> int" where
  "Day t = t div msPerDay"

definition TimeClip :: "int \<Rightarrow> Date" where
  "TimeClip t = (if 8640000000000000 < \<bar>t\<bar> then Invalid_Date else Date_ms t)"

definition InLeapYear :: "int \<Rightarrow> bool" where
  "InLeapYear y = (y mod 4 = 0 \<and> (y mod 100 \<noteq> 0 \<or> y mod 400 = 0))"

definition DayFromYear :: "int \<Rightarrow> int" where
  "DayFromYear y =
     365 * (y - 1970) + (y - 1969) div 4 - (y - 1901) div 100 + (y - 1601) div 400"

text \<open>YearFromTime is the largest year whose first day is not after the given day. The
  year is found from the mean length of a year (146097 days in 400 years) and moved by one
  where the estimate is off.\<close>

definition YearFromDay :: "int \<Rightarrow> int" where
  "YearFromDay n =
     (let y = 1970 + (400 * n) div 146097
      in if n < DayFromYear y then y - 1
         else if DayFromYear (y + 1) \<le> n then y + 1
         else y)"

definition DayWithinYear :: "int \<Rightarrow> int" where
  "DayWithinYear n = n - DayFromYear (YearFromDay n)"

definition leap_days :: "int \<Rightarrow> int" where
  "leap_days y = (if InLeapYear y then 1 else 0)"

text \<open>The day within a year on which month \<open>m\<close> (0 to 11) starts.\<close>

definition month_start :: "int \<Rightarrow> int \<Rightarrow> int" where
  "month_start y m =
     (if m = 0 then 0 else if m = 1 then 31
      else (if m = 2 then 59 else if m = 3 then 90 else if m = 4 then 120
            else if m = 5 then 151 else if m = 6 then 181 else if m = 7 then 212
            else if m = 8 then 243 else if m = 9 then 273 else if m = 10 then 304
            else 334) + leap_days y)"

definition MonthFromDay :: "int \<Rightarrow> int" where
  "MonthFromDay n =
     (let y = YearFromDay n; d = DayWithinYear n
      in if d < month_start y 1 then 0 else if d < month_start y 2 then 1
         else if d < month_start y 3 then 2 else if d < month_start y 4 then 3
         else if d < month_start y 5 then 4 else if d < month_start y 6 then 5
         else if d < month_start y 7 then 6 else if d < month_start y 8 then 7
         else if d < month_start y 9 then 8 else if d < month_start y 10 then 9
         else if d < month_start y 11 then 10 else 11)"

definition DateFromDay :: "int \<Rightarrow> int" where
  "DateFromDay n = DayWithinYear n - month_start (YearFromDay n) (MonthFromDay n) + 1"

text \<open>MakeDay: the day number of a year, a month (any integer; twelve months carry into
  the year) and a day of the month.\<close>

definition MakeDay :: "int \<Rightarrow> int \<Rightarrow> int \<Rightarrow> int" where
  "MakeDay year month dt =
     (let ym = year + month div 12; mn = month mod 12
      in DayFromYear ym + month_start ym mn + dt - 1)"

text \<open>\<^verbatim>\<open>Date.UTC(year, month, date)\<close> followed by \<^verbatim>\<open>new Date(...)\<close>, for integral
  arguments: a year from 0 to 99 stands for 1900 to 1999, the time of day is zero.\<close>

definition Date_UTC :: "int \<Rightarrow> int \<Rightarrow> int \<Rightarrow> Date" where
  "Date_UTC year month dt =
     (let yr = (if 0 \<le> year \<and> year \<le> 99 then 1900 + year else year)
      in TimeClip (MakeDay yr month dt * msPerDay))"

text \<open>The UTC fields of a time value that a \<^verbatim>\<open>Date\<close> reports (each is NaN for an
  invalid date).\<close>

definition HourFromTime :: "int \<Rightarrow> int" where
  "HourFromTime t = (t div 3600000) mod 24"

definition MinFromTime :: "int \<Rightarrow> int" where
  "MinFromTime t = (t div 60000) mod 60"

definition SecFromTime :: "int \<Rightarrow> int" where
  "SecFromTime t = (t div 1000) mod 60"

definition msFromTime :: "int \<Rightarrow> int" where
  "msFromTime t = t mod 1000"

definition date_field :: "(int \<Rightarrow> int) \<Rightarrow> Date \<Rightarrow> jsnum" where
  "date_field f d = (case d of Invalid_Date \<Rightarrow> NaN | Date_ms t \<Rightarrow> num_of_int (f t))"

definition getUTCHours :: "Date \<Rightarrow> jsnum" where
  "getUTCHours = date_field HourFromTime"

definition getUTCMinutes :: "Date \<Rightarrow> jsnum" where
  "getUTCMinutes = date_field MinFromTime"

definition getUTCSeconds :: "Date \<Rightarrow> jsnum" where
  "getUTCSeconds = date_field SecFromTime"

definition getUTCMilliseconds :: "Date \<Rightarrow> jsnum" where
  "getUTCMilliseconds = date_field msFromTime"

text \<open>The relational comparison \<^verbatim>\<open>a > b\<close> of two dates compares their time values;
  it is false when either is NaN.\<close>

definition date_gt :: "Date \<Rightarrow> Date \<Rightarrow> bool" where
  "date_gt a b = (case (a, b) of (Date_ms s, Date_ms t) \<Rightarrow> t < s | _ \<Rightarrow> False)"

subsection \<open>Named time zones\<close>

text \<open>
  A named time zone of the time zone database is its table: the UTC offset in force at
  the beginning of time and the transitions, each an instant with the offset in force
  from then on, in increasing order. Instants and offsets are in seconds.

  \<^verbatim>\<open>Temporal.PlainDate.prototype.toZonedDateTime\<close> with a time zone alone gives the
  instant at which the wall clock of the zone reads midnight of the date. The instants with
  a given wall-clock reading are sought among those that the offsets one day before and one
  day after give (as the reference implementation of Temporal does); of two the earlier is
  taken, and when there is none (the reading is skipped by a transition) the reading is
  moved forward by the length of the gap.
\<close>

type_synonym tz = "int \<times> (int \<times> int) list"

fun offset_from :: "int \<Rightarrow> (int \<times> int) list \<Rightarrow> int \<Rightarrow> int" where
  "offset_from off [] t = off"
| "offset_from off ((T, off') # trs) t = (if T \<le> t then offset_from off' trs t else off)"

definition offset_at :: "tz \<Rightarrow> int \<Rightarrow> int" where
  "offset_at z t = offset_from (fst z) (snd z) t"

definition possible_instants :: "tz \<Rightarrow> int \<Rightarrow> int list" where
  "possible_instants z wall =
     (let earlier = offset_at z (wall - 86400);
          later = offset_at z (wall + 86400);
          found = (if earlier = later then [earlier] else [earlier, later])
      in filter (\<lambda>t. t + offset_at z t = wall) (map (\<lambda>off. wall - off) found))"

definition instant_for :: "tz \<Rightarrow> int \<Rightarrow> int option" where
  "instant_for z wall =
     (case possible_instants z wall of
        t # ts \<Rightarrow> Some t
      | [] \<Rightarrow>
          (let off_before = offset_at z (wall - 86400);
               off_after = offset_at z (wall + 86400)
           in case possible_instants z (wall + (off_after - off_before)) of
                [] \<Rightarrow> None
              | t # ts \<Rightarrow> Some (last (t # ts))))"

subsection \<open>JSON\<close>

text \<open>
  JSON values, with \<^verbatim>\<open>JSON.stringify\<close> (no indentation) and \<^verbatim>\<open>JSON.parse\<close>. The members
  of an object are kept in order. Numbers are integers: a fraction or an exponent is
  outside the model, and so is a \<^verbatim>\<open>\u\<close> escape of a code unit from 256 up.
\<close>

datatype jvalue =
    JNull
  | JBool bool
  | JNumber int
  | JString string
  | JArray "jvalue list"
  | JObject "(string \<times> jvalue) list"

definition hex_digit :: "nat \<Rightarrow> char" where
  "hex_digit n = (if n < 10 then char_of (48 + n) else char_of (87 + n))"

definition escape_char :: "char \<Rightarrow> string" where
  "escape_char c =
     (let n = (of_char c :: nat)
      in if n = 34 then [CHR 0x5C, CHR 0x22]
         else if n = 92 then [CHR 0x5C, CHR 0x5C]
         else if n = 8 then [CHR 0x5C, CHR ''b'']
         else if n = 9 then [CHR 0x5C, CHR ''t'']
         else if n = 10 then [CHR 0x5C, CHR ''n'']
         else if n = 12 then [CHR 0x5C, CHR ''f'']
         else if n = 13 then [CHR 0x5C, CHR ''r'']
         else if n < 32 then [CHR 0x5C, CHR ''u'', CHR ''0'', CHR ''0'',
                              hex_digit (n div 16), hex_digit (n mod 16)]
         else [c])"

definition quote :: "string \<Rightarrow> string" where
  "quote s = CHR 0x22 # concat (map escape_char s) @ [CHR 0x22]"

fun stringify :: "jvalue \<Rightarrow> string" where
  "stringify JNull = ''null''"
| "stringify (JBool b) = (if b then ''true'' else ''false'')"
| "stringify (JNumber n) = show_int n"
| "stringify (JString s) = quote s"
| "stringify (JArray vs) = ''['' @ join '','' (map stringify vs) @ '']''"
| "stringify (JObject ms) =
     ''{'' @ join '','' (map (\<lambda>m. quote (fst m) @ '':'' @ stringify (snd m)) ms) @ ''}''"

definition json_ws :: "char \<Rightarrow> bool" where
  "json_ws c = ((of_char c :: nat) \<in> {9, 10, 13, 32})"

definition skip_ws :: "string \<Rightarrow> string" where
  "skip_ws s = dropWhile json_ws s"

definition hex_val :: "char \<Rightarrow> nat option" where
  "hex_val c =
     (let n = (of_char c :: nat)
      in if 48 \<le> n \<and> n \<le> 57 then Some (n - 48)
         else if 97 \<le> n \<and> n \<le> 102 then Some (n - 87)
         else if 65 \<le> n \<and> n \<le> 70 then Some (n - 55)
         else None)"

definition unescape :: "char \<Rightarrow> char option" where
  "unescape e =
     (if e = CHR 0x22 \<or> e = CHR 0x5C \<or> e = CHR ''/'' then Some e
      else if e = CHR ''b'' then Some (CHR 0x08)
      else if e = CHR ''t'' then Some (CHR 0x09)
      else if e = CHR ''n'' then Some (CHR 0x0A)
      else if e = CHR ''f'' then Some (CHR 0x0C)
      else if e = CHR ''r'' then Some (CHR 0x0D)
      else None)"

definition cons_fst :: "'a \<Rightarrow> ('a list \<times> 'b) option \<Rightarrow> ('a list \<times> 'b) option" where
  "cons_fst x r = (case r of None \<Rightarrow> None | Some (xs, rest) \<Rightarrow> Some (x # xs, rest))"

text \<open>The characters of a string literal after its opening quote, up to the closing one.\<close>

fun parse_chars :: "string \<Rightarrow> (string \<times> string) option" where
  "parse_chars [] = None"
| "parse_chars (c # cs) =
     (if c = CHR 0x22 then Some ([], cs)
      else if c = CHR 0x5C then
        (case cs of
           [] \<Rightarrow> None
         | e # cs1 \<Rightarrow>
             if e = CHR ''u'' then
               (case cs1 of
                  h1 # h2 # h3 # h4 # cs2 \<Rightarrow>
                    (case (hex_val h1, hex_val h2, hex_val h3, hex_val h4) of
                       (Some a, Some b, Some c', Some d) \<Rightarrow>
                         if a = 0 \<and> b = 0
                         then cons_fst (char_of (16 * c' + d)) (parse_chars cs2)
                         else None
                     | _ \<Rightarrow> None)
                | _ \<Rightarrow> None)
             else
               (case unescape e of
                  None \<Rightarrow> None
                | Some ch \<Rightarrow> cons_fst ch (parse_chars cs1)))
      else if (of_char c :: nat) < 32 then None
      else cons_fst c (parse_chars cs))"

text \<open>A number: an optional minus sign and decimal digits without a leading zero.\<close>

definition parse_number :: "string \<Rightarrow> (jvalue \<times> string) option" where
  "parse_number s =
     (let neg = (s \<noteq> [] \<and> hd s = CHR ''-'');
          r = (if neg then tl s else s);
          ds = takeWhile is_digit r;
          rest = dropWhile is_digit r
      in if ds = [] \<or> (hd ds = CHR ''0'' \<and> tl ds \<noteq> []) then None
         else if rest \<noteq> [] \<and> hd rest \<in> {CHR ''.'', CHR ''e'', CHR ''E''} then None
         else Some (JNumber (if neg then - digits_val ds else digits_val ds), rest))"

text \<open>The parser descends into arrays and objects; its first argument bounds the number
  of values, elements and members it may read, and \<open>JSON_parse\<close> gives it more than the
  length of the text.\<close>

fun parse_value :: "nat \<Rightarrow> string \<Rightarrow> (jvalue \<times> string) option"
  and parse_elements :: "nat \<Rightarrow> string \<Rightarrow> (jvalue list \<times> string) option"
  and parse_members :: "nat \<Rightarrow> string \<Rightarrow> ((string \<times> jvalue) list \<times> string) option"
where
  "parse_value 0 s = None"
| "parse_value (Suc f) s =
     (case skip_ws s of
        [] \<Rightarrow> None
      | c # cs \<Rightarrow>
          if c = CHR 0x22 then
            (case parse_chars cs of None \<Rightarrow> None | Some (str, r) \<Rightarrow> Some (JString str, r))
          else if c = CHR ''['' then
            (if skip_ws cs \<noteq> [] \<and> hd (skip_ws cs) = CHR '']''
             then Some (JArray [], tl (skip_ws cs))
             else (case parse_elements f cs of
                     None \<Rightarrow> None | Some (vs, r) \<Rightarrow> Some (JArray vs, r)))
          else if c = CHR ''{'' then
            (if skip_ws cs \<noteq> [] \<and> hd (skip_ws cs) = CHR ''}''
             then Some (JObject [], tl (skip_ws cs))
             else (case parse_members f cs of
                     None \<Rightarrow> None | Some (ms, r) \<Rightarrow> Some (JObject ms, r)))
          else if take 4 (c # cs) = ''null'' then Some (JNull, drop 4 (c # cs))
          else if take 4 (c # cs) = ''true'' then Some (JBool True, drop 4 (c # cs))
          else if take 5 (c # cs) = ''false'' then Some (JBool False, drop 5 (c # cs))
          else parse_number (c # cs))"
| "parse_elements 0 s = None"
| "parse_elements (Suc f) s =
     (case parse_value f s of
        None \<Rightarrow> None
      | Some (v, r) \<Rightarrow>
          (case skip_ws r of
             [] \<Rightarrow> None
           | c # r1 \<Rightarrow>
               if c = CHR '','' then cons_fst v (parse_elements f r1)
               else if c = CHR '']'' then Some ([v], r1)
               else None))"
| "parse_members 0 s = None"
| "parse_members (Suc f) s =
     (case skip_ws s of
        [] \<Rightarrow> None
      | q # cs \<Rightarrow>
          if q = CHR 0x22 then
            (case parse_chars cs of
               None \<Rightarrow> None
             | Some (k, r) \<Rightarrow>
                 (case skip_ws r of
                    [] \<Rightarrow> None
                  | colon # r1 \<Rightarrow>
                      if colon = CHR '':'' then
                        (case parse_value f r1 of
                           None \<Rightarrow> None
                         | Some (v, r2) \<Rightarrow>
                             (case skip_ws r2 of
                                [] \<Rightarrow> None
                              | c # r3 \<Rightarrow>
                                  if c = CHR '','' then cons_fst (k, v) (parse_members f r3)
                                  else if c = CHR ''}'' then Some ([(k, v)], r3)
                                  else None))
                      else None))
          else None)"

definition JSON_parse :: "string \<Rightarrow> jvalue option" where
  "JSON_parse s =
     (case parse_value (Suc (length s)) s of
        None \<Rightarrow> None
      | Some (v, r) \<Rightarrow> if skip_ws r = [] then Some v else None)"

subsection \<open>Base64\<close>

text \<open>\<^verbatim>\<open>Buffer.from(name, 'utf8').toString('base64')\<close>: the UTF-8 bytes of the string
  (one byte below 128, two from 128 to 255), then base64 with padding.\<close>

definition utf8_bytes :: "string \<Rightarrow> nat list" where
  "utf8_bytes s =
     concat (map (\<lambda>c. let n = (of_char c :: nat)
                       in if n < 128 then [n] else [192 + n div 64, 128 + n mod 64]) s)"

definition b64_char :: "nat \<Rightarrow> char" where
  "b64_char n =
     (if n < 26 then char_of (65 + n)
      else if n < 52 then char_of (71 + n)
      else if n < 62 then char_of (n - 4)
      else if n = 62 then CHR ''+'' else CHR ''/'')"

fun base64 :: "nat list \<Rightarrow> string" where
  "base64 [] = []"
| "base64 [a] = [b64_char (a div 4), b64_char ((a mod 4) * 16), CHR ''='', CHR ''='']"
| "base64 [a, b] =
     [b64_char (a div 4), b64_char ((a mod 4) * 16 + b div 16),
      b64_char ((b mod 16) * 4), CHR ''='']"
| "base64 (a # b # c # r) =
     [b64_char (a div 4), b64_char ((a mod 4) * 16 + b div 16),
      b64_char ((b mod 16) * 4 + c div 64), b64_char (c mod 64)] @ base64 r"

section \<open>The models of \<^verbatim>\<open>fidelity-models.ts\<close>\<close>

record AcctDetailModel =
  acctNum :: string
  acctType :: string
  name :: string

record SearchCriteriaDetailModel =
  timePeriod :: int
  txnCat :: unit
  viewType :: string
  histSortDir :: string
  acctHistSort :: string
  hasBasketName :: bool
  txnFromDate :: string
  txnToDate :: string

record GetTransactionsReqVarsModel =
  isNewOrderApi :: bool
  isSupportCrypto :: bool
  hideDCOrders :: bool
  acctIdList :: string
  acctDetailList :: "AcctDetailModel list"
  searchCriteriaDetail :: SearchCriteriaDetailModel

record GetTransactionsReqModel =
  operationName :: string
  variables :: GetTransactionsReqVarsModel
  query :: string

record GetTransactionsRespHistoryModel =
  acctNum :: string
  amount :: string
  date :: string
  description :: string
  intradayInd :: bool
  orderNumber :: string

record GetTransactionsRespTransactionsModel =
  historys :: "GetTransactionsRespHistoryModel list"

record GetTransactionsRespDataModel =
  getTransactions :: GetTransactionsRespTransactionsModel

record GetTransactionsRespModel =
  data :: GetTransactionsRespDataModel

record BackendStatusModel =
  account :: string

record SysStatusModel =
  backend :: BackendStatusModel

record PreferenceDetailModel =
  name :: string

record GetAccountsRespAcctDetailModel =
  acctNum :: string
  acctType :: string
  preferenceDetail :: PreferenceDetailModel

record PersonModel =
  assets :: "GetAccountsRespAcctDetailModel list"

record GetAccountsContextModel =
  sysStatus :: SysStatusModel
  person :: PersonModel

record GetAccountsRespDataModel =
  getContext :: GetAccountsContextModel

record GetAccountsRespModel =
  data :: GetAccountsRespDataModel

section \<open>The client of \<^verbatim>\<open>fidelity.ts\<close>\<close>

subsection \<open>Data\<close>

record Account =
  number :: string
  name :: string

record Transaction =
  acct_num :: string
  date :: Date
  description :: string
  amount :: "jsnum option"
  order_number :: "string option"
  pending :: bool

text \<open>What the client throws: its own \<^verbatim>\<open>FidelityError\<close>, the \<^verbatim>\<open>RangeError\<close> of Temporal,
  the \<^verbatim>\<open>SyntaxError\<close> of \<^verbatim>\<open>JSON.parse\<close>, or whatever the evaluator rejects with. Each
  carries its message.\<close>

datatype error = FidelityError string | RangeError string | SyntaxError string | Rejected string

text \<open>
  The JSON payload of a response is cast to one of the two response models. A payload
  that has the shape of neither is \<open>OtherJson m\<close>, where \<open>m\<close> is the message of the error
  that reading the expected members of it raises.
\<close>

datatype payload =
    AccountsJson GetAccountsRespModel
  | TransactionsJson GetTransactionsRespModel
  | OtherJson string

record FetchResp =
  status :: int
  resp_text :: "string option"
  json :: payload

text \<open>
  The evaluator is the injected callback through which every request goes. Its answer may
  depend on the requests made before: it is a function of the calls so far (each a URL
  with the options of \<^verbatim>\<open>fetch\<close>) and of the call at hand, and it gives a response or
  rejects.
\<close>

type_synonym EvaluateFunc = "(string \<times> jvalue) list \<Rightarrow> string \<Rightarrow> jvalue \<Rightarrow> error + FetchResp"

text \<open>An instance of the class: the evaluator, the account cache (\<open>None\<close> is the
  \<^verbatim>\<open>null\<close> of a cache not yet filled; a \<^verbatim>\<open>Map\<close> is the list of its entries in
  insertion order), and the calls made through the evaluator so far.\<close>

record Fidelity =
  evaluator :: EvaluateFunc
  accounts :: "(string \<times> Account) list option"
  calls :: "(string \<times> jvalue) list"

text \<open>
  What the client takes from its surroundings: the rendering of a Number in a template
  literal, the parsing of a date string by \<^verbatim>\<open>new Date(string)\<close> and the offset of the local
  time zone at a time value (in milliseconds), the table of the zone America/New_York,
  and the three files of \<^verbatim>\<open>fidelity-templates\<close>.
\<close>

record body_template =
  t_operationName :: string
  t_isNewOrderApi :: bool
  t_isSupportCrypto :: bool
  t_hideDCOrders :: bool
  t_acctIdList :: string
  t_acctType :: string
  t_timePeriod :: int
  t_viewType :: string
  t_histSortDir :: string
  t_acctHistSort :: string
  t_hasBasketName :: bool
  t_query :: string

record runtime =
  Number_toString :: "jsnum \<Rightarrow> string"
  Date_parse :: "string \<Rightarrow> Date"
  LocalTZA :: "int \<Rightarrow> int"
  FIDELITY_ZONE :: tz
  getAccountsOptions_file :: jvalue
  getTransactionsBody_file :: body_template
  getTransactionsOptions_file :: "(string \<times> jvalue) list"

record AccountDict =
  number :: string
  name :: string
  last :: bool

record BodyContext =
  ctx_accounts :: "AccountDict list"
  ctx_start :: string
  ctx_end :: string

text \<open>\<^verbatim>\<open>Map.prototype.set\<close>: the value of a key already present is replaced where the
  key stands, a new key goes to the end.\<close>

fun Map_set :: "'k \<Rightarrow> 'v \<Rightarrow> ('k \<times> 'v) list \<Rightarrow> ('k \<times> 'v) list" where
  "Map_set k v [] = [(k, v)]"
| "Map_set k v ((k', v') # m) = (if k = k' then (k, v) # m else (k', v') # Map_set k v m)"

definition Map_get :: "('k \<times> 'v) list \<Rightarrow> 'k \<Rightarrow> 'v option" where
  "Map_get m k = map_of m k"

subsection \<open>Static methods\<close>

definition getAccountsOptions :: "runtime \<Rightarrow> jvalue" where
  "getAccountsOptions rt = getAccountsOptions_file rt"

text \<open>fidelityDate: the calendar date of the UTC fields of \<open>d\<close>, as a PlainDate; midnight
  of that date in the zone; the epoch seconds of that instant, as a decimal string.
  \<^verbatim>\<open>PlainDate.from\<close> throws a RangeError for the NaN fields of an invalid date, and an
  instant is in range up to \<open>8.64 * 10^15\<close> milliseconds.\<close>

definition fidelityDate_seconds :: "runtime \<Rightarrow> Date \<Rightarrow> error + int" where
  \<comment> \<open>\<^verbatim>\<open>Math.floor(fidelityDate.epochMilliseconds / 1000)\<close>\<close>
  "fidelityDate_seconds rt d =
     (case d of
        Invalid_Date \<Rightarrow> Inl (RangeError ''year must be a finite number'')
      | Date_ms t \<Rightarrow>
          (let year = YearFromDay (Day t);
               month = MonthFromDay (Day t) + 1;
               day = DateFromDay (Day t);
               wall = MakeDay year (month - 1) day * 86400
           in case instant_for (FIDELITY_ZONE rt) wall of
                None \<Rightarrow> Inl (RangeError ''no instant found'')
              | Some epochSeconds \<Rightarrow>
                  (let epochMilliseconds = epochSeconds * 1000
                   in if 8640000000000000 < \<bar>epochMilliseconds\<bar>
                      then Inl (RangeError ''date/time value is outside the supported range'')
                      else Inr (epochMilliseconds div 1000))))"

definition fidelityDate :: "runtime \<Rightarrow> Date \<Rightarrow> error + string" where
  "fidelityDate rt d =
     (case fidelityDate_seconds rt d of Inl e \<Rightarrow> Inl e | Inr n \<Rightarrow> Inr (show_int n))"

definition encodeAccountName :: "string \<Rightarrow> string" where
  "encodeAccountName nm = base64 (utf8_bytes nm)"

definition dayOffset :: "Date \<Rightarrow> jsnum" where
  "dayOffset d =
     js_add
       (js_add
          (js_add (getUTCHours d) (js_div (getUTCMinutes d) (num_of_int 60)))
          (js_div (getUTCSeconds d) (num_of_int 3600)))
       (js_div (getUTCMilliseconds d) (num_of_int 3600000))"

definition checkDate :: "runtime \<Rightarrow> Date \<Rightarrow> string" where
  "checkDate rt d =
     (if ne_zero (dayOffset d)
      then ''not exact day: '' @ Number_toString rt (dayOffset d) @ '' hours''
      else [])"

definition accountDicts :: "Account list \<Rightarrow> AccountDict list" where
  "accountDicts accts =
     map (\<lambda>(a, i). \<lparr>AccountDict.number = Account.number a,
                      AccountDict.name = encodeAccountName (Account.name a),
                      last = (int i = int (length accts) - 1)\<rparr>)
         (zip accts [0 ..< length accts])"

text \<open>
  Modelled from the spec: the file \<^verbatim>\<open>fidelity-templates/getTransactionsBody.json.mustache\<close>
  is not among the sources. \<open>render_getTransactionsBody\<close> is
  \<^verbatim>\<open>JSON.parse(Mustache.render(template, context))\<close> for it, as the spec describes the
  template: the request document of \<^verbatim>\<open>GetTransactionsReqModel\<close> in which
  \<open>acctDetailList\<close> lists the accounts of the context in their order, each with its number
  and its encoded name (the flag \<open>last\<close> only keeps the comma after the final account
  away), and \<open>txnFromDate\<close> and \<open>txnToDate\<close> are the \<open>start\<close> and \<open>end\<close> of the context.
  Everything else in the document is text of the template, taken as given. The values the
  context supplies are substituted as they are (the spec: rendering is template
  substitution only). The rendered text is then valid JSON, and the document is this one,
  when every value can stand between the quotes of the template as it is: it holds no
  quote, no backslash and no control character. For another value the rendered text is
  not valid JSON, or is the text of another document, and \<^verbatim>\<open>JSON.parse\<close> fails or returns
  that one: the definition says nothing of such a context, and it is to be used for plain
  values only.
\<close>

definition render_getTransactionsBody :: "body_template \<Rightarrow> BodyContext \<Rightarrow> GetTransactionsReqModel" where
  "render_getTransactionsBody tpl ctx =
     \<lparr>operationName = t_operationName tpl,
      variables =
        \<lparr>isNewOrderApi = t_isNewOrderApi tpl,
         isSupportCrypto = t_isSupportCrypto tpl,
         hideDCOrders = t_hideDCOrders tpl,
         acctIdList = t_acctIdList tpl,
         acctDetailList =
           map (\<lambda>a. \<lparr>AcctDetailModel.acctNum = AccountDict.number a,
                       AcctDetailModel.acctType = t_acctType tpl,
                       AcctDetailModel.name = AccountDict.name a\<rparr>)
               (ctx_accounts ctx),
         searchCriteriaDetail =
           \<lparr>timePeriod = t_timePeriod tpl,
            txnCat = (),
            viewType = t_viewType tpl,
            histSortDir = t_histSortDir tpl,
            acctHistSort = t_acctHistSort tpl,
            hasBasketName = t_hasBasketName tpl,
            txnFromDate = ctx_start ctx,
            txnToDate = ctx_end ctx\<rparr>\<rparr>,
      query = t_query tpl\<rparr>"

definition getTransactionsBody ::
  "runtime \<Rightarrow> Account list \<Rightarrow> Date \<Rightarrow> Date \<Rightarrow> error + GetTransactionsReqModel" where
  "getTransactionsBody rt accts start end_date =
     (case fidelityDate rt start of
        Inl e \<Rightarrow> Inl e
      | Inr s \<Rightarrow>
          (case fidelityDate rt end_date of
             Inl e \<Rightarrow> Inl e
           | Inr e \<Rightarrow>
               Inr (render_getTransactionsBody (getTransactionsBody_file rt)
                      \<lparr>ctx_accounts = accountDicts accts, ctx_start = s, ctx_end = e\<rparr>)))"

text \<open>The request document as the JSON value that \<^verbatim>\<open>JSON.stringify\<close> walks.\<close>

definition json_of_detail :: "AcctDetailModel \<Rightarrow> jvalue" where
  "json_of_detail a =
     JObject [(''acctNum'', JString (AcctDetailModel.acctNum a)),
              (''acctType'', JString (AcctDetailModel.acctType a)),
              (''name'', JString (AcctDetailModel.name a))]"

definition json_of_criteria :: "SearchCriteriaDetailModel \<Rightarrow> jvalue" where
  "json_of_criteria c =
     JObject [(''timePeriod'', JNumber (timePeriod c)),
              (''txnCat'', JNull),
              (''viewType'', JString (viewType c)),
              (''histSortDir'', JString (histSortDir c)),
              (''acctHistSort'', JString (acctHistSort c)),
              (''hasBasketName'', JBool (hasBasketName c)),
              (''txnFromDate'', JString (txnFromDate c)),
              (''txnToDate'', JString (txnToDate c))]"

definition json_of_vars :: "GetTransactionsReqVarsModel \<Rightarrow> jvalue" where
  "json_of_vars v =
     JObject [(''isNewOrderApi'', JBool (isNewOrderApi v)),
              (''isSupportCrypto'', JBool (isSupportCrypto v)),
              (''hideDCOrders'', JBool (hideDCOrders v)),
              (''acctIdList'', JString (acctIdList v)),
              (''acctDetailList'', JArray (map json_of_detail (acctDetailList v))),
              (''searchCriteriaDetail'', json_of_criteria (searchCriteriaDetail v))]"

definition json_of_req :: "GetTransactionsReqModel \<Rightarrow> jvalue" where
  "json_of_req r =
     JObject [(''operationName'', JString (operationName r)),
              (''variables'', json_of_vars (variables r)),
              (''query'', JString (query r))]"

text \<open>
  Modelled from the spec: the file
  \<^verbatim>\<open>fidelity-templates/getTransactionsOptions.json.mustache\<close> is not among the sources.
  \<open>render_getTransactionsOptions\<close> is \<^verbatim>\<open>JSON.parse(Mustache.render(template, context))\<close>
  for it, as the spec describes the template: the text of the context's \<open>body\<close> is
  substituted as it is for the value of the member \<open>body\<close> of the options, whose other
  members are text of the template, taken as given. Parsing reads the substituted text
  back; text that is not JSON is a SyntaxError.
\<close>

definition render_getTransactionsOptions :: "(string \<times> jvalue) list \<Rightarrow> string \<Rightarrow> error + jvalue" where
  "render_getTransactionsOptions tpl body_text =
     (case JSON_parse body_text of
        None \<Rightarrow> Inl (SyntaxError ''Unexpected token'')
      | Some v \<Rightarrow> Inr (JObject (tpl @ [(''body'', v)])))"

definition getTransactionsOptions :: "runtime \<Rightarrow> Account list \<Rightarrow> Date \<Rightarrow> Date \<Rightarrow> error + jvalue" where
  "getTransactionsOptions rt accts start end_date =
     (case getTransactionsBody rt accts start end_date of
        Inl e \<Rightarrow> Inl e
      | Inr doc \<Rightarrow>
          render_getTransactionsOptions (getTransactionsOptions_file rt)
            (stringify (JString (stringify (json_of_req doc)))))"

text \<open>historyEntryToTransaction. The date string is parsed, the year, month and day of
  the parsed date are read in local time (\<^verbatim>\<open>getFullYear\<close>, \<^verbatim>\<open>getMonth\<close>, \<^verbatim>\<open>getDate\<close>), and
  \<^verbatim>\<open>Date.UTC\<close> makes the date from them.\<close>

definition strip_amount :: "string \<Rightarrow> string" where
  \<comment> \<open>\<^verbatim>\<open>h.amount.replace(/[,$]/g, '')\<close>\<close>
  "strip_amount s = filter (\<lambda>c. c \<noteq> CHR '','' \<and> c \<noteq> CHR ''$'') s"

definition parse_amount :: "string \<Rightarrow> jsnum option" where
  "parse_amount s =
     (let amount_str = strip_amount s
      in if trim amount_str \<noteq> [] then
           (let amt = js_div (Math_round (js_mul (parseFloat amount_str) (num_of_int 100)))
                        (num_of_int 100)
            in if isNaN amt then None else Some amt)
         else None)"

definition local_date :: "runtime \<Rightarrow> Date \<Rightarrow> Date" where
  "local_date rt d =
     (case d of
        Invalid_Date \<Rightarrow> Invalid_Date
      | Date_ms t \<Rightarrow>
          (let n = Day (t + LocalTZA rt t)
           in Date_UTC (YearFromDay n) (MonthFromDay n) (DateFromDay n)))"

definition historyEntryToTransaction :: "runtime \<Rightarrow> GetTransactionsRespHistoryModel \<Rightarrow> Transaction" where
  "historyEntryToTransaction rt h =
     \<lparr>acct_num = GetTransactionsRespHistoryModel.acctNum h,
      date = local_date rt (Date_parse rt (GetTransactionsRespHistoryModel.date h)),
      description = GetTransactionsRespHistoryModel.description h,
      amount = parse_amount (GetTransactionsRespHistoryModel.amount h),
      order_number = (if orderNumber h = [] then None else Some (orderNumber h)),
      pending = intradayInd h\<rparr>"

subsection \<open>Requests\<close>

definition accounts_url :: string where
  "accounts_url = ''https://digital.fidelity.com/ftgw/digital/portfolio/api/graphql?ref_at=portsum''"

definition transactions_url :: string where
  "transactions_url = ''https://digital.fidelity.com/ftgw/digital/webactivity/api/graphql?ref_at=activity''"

text \<open>fetch: one call of the evaluator, recorded in \<open>calls\<close>; a status other than 200
  is an error.\<close>

definition fetch :: "Fidelity \<Rightarrow> string \<Rightarrow> jvalue \<Rightarrow> (error + payload) \<times> Fidelity" where
  "fetch self url options =
     (let self' = self\<lparr>calls := calls self @ [(url, options)]\<rparr>
      in case evaluator self (calls self) url options of
           Inl e \<Rightarrow> (Inl e, self')
         | Inr resp \<Rightarrow>
             if status resp \<noteq> 200
             then (Inl (FidelityError
                     (''get_transactions fetch failed, code: '' @ show_int (status resp)
                      @ '', text: ''
                      @ (case resp_text resp of None \<Rightarrow> ''undefined'' | Some t \<Rightarrow> t))),
                   self')
             else (Inr (json resp), self'))"

definition accountMap_of :: "GetAccountsRespAcctDetailModel list \<Rightarrow> (string \<times> Account) list" where
  "accountMap_of as =
     foldl (\<lambda>m a. Map_set (Account.number a) a m) []
       (map (\<lambda>a. \<lparr>Account.number = GetAccountsRespAcctDetailModel.acctNum a,
                   Account.name = PreferenceDetailModel.name (preferenceDetail a)\<rparr>) as)"

text \<open>The body of the \<^verbatim>\<open>try\<close> of fetchAccounts: the value it returns, or the message of
  what it throws.\<close>

definition parse_accounts :: "payload \<Rightarrow> string + (string \<times> Account) list" where
  "parse_accounts respJson =
     (case respJson of
        AccountsJson resp \<Rightarrow>
          (let c = getContext (GetAccountsRespModel.data resp);
               st = account (backend (sysStatus c))
           in if toLowerCase st \<noteq> ''ok''
              then Inl (''Fidelity backend not ok '' @ st)
              else Inr (accountMap_of (assets (person c))))
      | TransactionsJson resp \<Rightarrow>
          Inl ''Cannot read properties of undefined (reading 'sysStatus')''
      | OtherJson m \<Rightarrow> Inl m)"

definition fetchAccounts :: "runtime \<Rightarrow> Fidelity \<Rightarrow> (error + (string \<times> Account) list) \<times> Fidelity" where
  "fetchAccounts rt self =
     (case fetch self accounts_url (getAccountsOptions rt) of
        (Inl e, self') \<Rightarrow> (Inl e, self')
      | (Inr respJson, self') \<Rightarrow>
          (case parse_accounts respJson of
             Inl m \<Rightarrow> (Inl (FidelityError (''Failed to parse get_accounts response: '' @ m)), self')
           | Inr accountMap \<Rightarrow> (Inr accountMap, self')))"

definition getAccounts :: "runtime \<Rightarrow> Fidelity \<Rightarrow> (error + (string \<times> Account) list) \<times> Fidelity" where
  "getAccounts rt self =
     (case accounts self of
        Some m \<Rightarrow> (Inr m, self)
      | None \<Rightarrow>
          (case fetchAccounts rt self of
             (Inl e, self') \<Rightarrow> (Inl e, self')
           | (Inr m, self') \<Rightarrow> (Inr m, self'\<lparr>accounts := Some m\<rparr>)))"

definition getAccount :: "runtime \<Rightarrow> Fidelity \<Rightarrow> string \<Rightarrow> (error + Account option) \<times> Fidelity" where
  "getAccount rt self acct =
     (case getAccounts rt self of
        (Inl e, self') \<Rightarrow> (Inl e, self')
      | (Inr m, self') \<Rightarrow> (Inr (Map_get m acct), self'))"

text \<open>The loop of getTransactions over the identifiers, filling \<open>acctDict\<close>.\<close>

fun resolve_accounts ::
  "runtime \<Rightarrow> Fidelity \<Rightarrow> string list \<Rightarrow> (string \<times> Account option) list
     \<Rightarrow> (error + (string \<times> Account option) list) \<times> Fidelity" where
  "resolve_accounts rt self [] acctDict = (Inr acctDict, self)"
| "resolve_accounts rt self (acct # rest) acctDict =
     (case getAccount rt self acct of
        (Inl e, self') \<Rightarrow> (Inl e, self')
      | (Inr a, self') \<Rightarrow> resolve_accounts rt self' rest (Map_set acct a acctDict))"

text \<open>The body of the \<^verbatim>\<open>try\<close> of getTransactions.\<close>

definition parse_transactions :: "runtime \<Rightarrow> payload \<Rightarrow> string + Transaction list" where
  "parse_transactions rt respJson =
     (case respJson of
        TransactionsJson resp \<Rightarrow>
          Inr (map (historyEntryToTransaction rt)
                 (historys (getTransactions (GetTransactionsRespModel.data resp))))
      | AccountsJson resp \<Rightarrow>
          Inl ''Cannot read properties of undefined (reading 'historys')''
      | OtherJson m \<Rightarrow> Inl m)"

definition date_message :: "runtime \<Rightarrow> Date \<Rightarrow> Date \<Rightarrow> string" where
  "date_message rt start end_date =
     join ''; '' (filter (\<lambda>m. 0 < length m) [checkDate rt start, checkDate rt end_date])"

definition missing_of :: "(string \<times> Account option) list \<Rightarrow> string list" where
  "missing_of acctDict = map fst (filter (\<lambda>(acctNum, a). a = None) acctDict)"

definition accts_of :: "(string \<times> Account option) list \<Rightarrow> Account list" where
  "accts_of acctDict = map the (filter (\<lambda>a. a \<noteq> None) (map snd acctDict))"

definition getTransactions_method ::
  "runtime \<Rightarrow> Fidelity \<Rightarrow> string list \<Rightarrow> Date \<Rightarrow> Date \<Rightarrow> (error + Transaction list) \<times> Fidelity" where
  "getTransactions_method rt self ids start end_date =
     (if 0 < length (date_message rt start end_date)
      then (Inl (FidelityError (''Invalid date(s): '' @ date_message rt start end_date)), self)
      else
        (case resolve_accounts rt self ids [] of
           (Inl e, self1) \<Rightarrow> (Inl e, self1)
         | (Inr acctDict, self1) \<Rightarrow>
             if 0 < length (missing_of acctDict)
             then (Inl (FidelityError
                          (''Account(s) not found: '' @ join '', '' (missing_of acctDict))),
                   self1)
             else
               (case getTransactionsOptions rt (accts_of acctDict) start end_date of
                  Inl e \<Rightarrow> (Inl e, self1)
                | Inr options \<Rightarrow>
                    (case fetch self1 transactions_url options of
                       (Inl e, self2) \<Rightarrow> (Inl e, self2)
                     | (Inr respJson, self2) \<Rightarrow>
                         (case parse_transactions rt respJson of
                            Inl m \<Rightarrow>
                              (Inl (FidelityError
                                      (''Failed to parse get_transactions response: '' @ m)),
                               self2)
                          | Inr ts \<Rightarrow> (Inr ts, self2))))))"

section \<open>Notions used in the statements\<close>

text \<open>The distinct elements of a list in the order of their first occurrence: what the
  keys of a \<^verbatim>\<open>Map\<close> are after the elements were set as keys one after the other.\<close>

definition first_occurrences :: "'a list \<Rightarrow> 'a list" where
  "first_occurrences xs = fold (\<lambda>x acc. if x \<in> set acc then acc else acc @ [x]) xs []"

text \<open>Several calls of getTransactions on one client, in turn.\<close>

fun getTransactions_in_turn ::
  "runtime \<Rightarrow> Fidelity \<Rightarrow> (string list \<times> Date \<times> Date) list \<Rightarrow> Fidelity" where
  "getTransactions_in_turn rt self [] = self"
| "getTransactions_in_turn rt self ((ids, start, end_date) # reqs) =
     getTransactions_in_turn rt (snd (getTransactions_method rt self ids start end_date)) reqs"

text \<open>The requests for the account list among the calls made so far.\<close>

definition account_fetches :: "Fidelity \<Rightarrow> (string \<times> jvalue) list" where
  "account_fetches self = filter (\<lambda>c. fst c = accounts_url) (calls self)"

text \<open>Text after a JSON value: nothing, or a comma or a closing bracket.\<close>

definition delimited :: "string \<Rightarrow> bool" where
  "delimited r = (r = [] \<or> hd r \<in> {CHR '','', CHR '']'', CHR ''}''})"

definition starts_value :: "string \<Rightarrow> bool" where
  "starts_value s = (s \<noteq> [] \<and> \<not> json_ws (hd s) \<and> hd s \<noteq> CHR '']'' \<and> hd s \<noteq> CHR ''}'')"

abbreviation member_text :: "string \<times> jvalue \<Rightarrow> string" where
  "member_text m \<equiv> quote (fst m) @ '':'' @ stringify (snd m)"

text \<open>
  Reading a parsed JSON document: the property \<open>k\<close> of a value as \<^verbatim>\<open>v[k]\<close> reads it (of
  two members with one key \<^verbatim>\<open>JSON.parse\<close> keeps the later), the value at the end of a
  path of properties, the elements of an array, and the value at a path in the document
  that parsing a text once gives.
\<close>

definition json_member :: "string \<Rightarrow> jvalue \<Rightarrow> jvalue option" where
  "json_member k v = (case v of JObject ms \<Rightarrow> map_of (rev ms) k | _ \<Rightarrow> None)"

fun json_path :: "string list \<Rightarrow> jvalue \<Rightarrow> jvalue option" where
  "json_path [] v = Some v"
| "json_path (k # ks) v = (case json_member k v of None \<Rightarrow> None | Some w \<Rightarrow> json_path ks w)"

definition json_elements :: "jvalue \<Rightarrow> jvalue list option" where
  "json_elements v = (case v of JArray vs \<Rightarrow> Some vs | _ \<Rightarrow> None)"

definition parsed_at :: "string list \<Rightarrow> string \<Rightarrow> jvalue option" where
  "parsed_at ks txt = (case JSON_parse txt of None \<Rightarrow> None | Some v \<Rightarrow> json_path ks v)"

text \<open>The property \<open>k\<close> of each element of the array at a path of the parsed text.\<close>

definition parsed_column :: "string list \<Rightarrow> string \<Rightarrow> string \<Rightarrow> jvalue option list option" where
  "parsed_column ks k txt =
     (case parsed_at ks txt of
        None \<Rightarrow> None
      | Some a \<Rightarrow> (case json_elements a of
                     None \<Rightarrow> None
                   | Some vs \<Rightarrow> Some (map (json_member k) vs)))"

text \<open>A string that stands in a JSON text between quotes as it is: it holds no quote, no
  backslash and no control character.\<close>

definition json_plain :: "string \<Rightarrow> bool" where
  "json_plain s = list_all (\<lambda>c. 32 \<le> (of_char c :: nat) \<and> c \<noteq> CHR 0x22 \<and> c \<noteq> CHR 0x5C) s"



subsection \<open>A mock evaluator\<close>

text \<open>
  The fixtures of the examples, after the test of the repository
  (\<^verbatim>\<open>MockEvaluator\<close>): the evaluator answers the account-list request with two accounts
  and the transaction request with two history entries, one settled and one pending.
  The zone table holds the two transitions of America/New_York in 2025 (9 March 07:00 UTC
  to daylight time, 2 November 06:00 UTC back to standard time).
\<close>

definition mock_toString :: "jsnum \<Rightarrow> string" where
  \<comment> \<open>right for the Numbers that are integers, which is all the examples render\<close>
  "mock_toString x = (case x of Finite q \<Rightarrow> show_int \<lfloor>q\<rfloor> | _ \<Rightarrow> ''NaN'')"

definition mock_Date_parse :: "string \<Rightarrow> Date" where
  "mock_Date_parse s =
     (if s = ''2025-11-28T00:00:00.000Z'' then Date_ms 1764288000000 else Invalid_Date)"

definition New_York_2025 :: tz where
  "New_York_2025 = (- 18000, [(1741503600, - 14400), (1762063200, - 18000)])"

definition mock_body_template :: body_template where
  "mock_body_template =
     \<lparr>t_operationName = ''getTransactions'', t_isNewOrderApi = True,
      t_isSupportCrypto = True, t_hideDCOrders = True, t_acctIdList = [],
      t_acctType = ''Brokerage'', t_timePeriod = 90, t_viewType = ''NON_CORE'',
      t_histSortDir = ''D'', t_acctHistSort = ''DATE'', t_hasBasketName = True,
      t_query = ''query getTransactions''\<rparr>"

definition mock_runtime :: "(int \<Rightarrow> int) \<Rightarrow> runtime" where
  \<comment> \<open>the argument is the offset of the local time zone\<close>
  "mock_runtime tza =
     \<lparr>Number_toString = mock_toString,
      Date_parse = mock_Date_parse,
      LocalTZA = tza,
      FIDELITY_ZONE = New_York_2025,
      getAccountsOptions_file = JObject [(''method'', JString ''POST'')],
      getTransactionsBody_file = mock_body_template,
      getTransactionsOptions_file = [(''method'', JString ''POST'')]\<rparr>"

definition mock_asset :: "string \<Rightarrow> string \<Rightarrow> GetAccountsRespAcctDetailModel" where
  "mock_asset num nm =
     \<lparr>GetAccountsRespAcctDetailModel.acctNum = num,
      GetAccountsRespAcctDetailModel.acctType = ''Brokerage'',
      preferenceDetail = \<lparr>PreferenceDetailModel.name = nm\<rparr>\<rparr>"

definition mock_accounts_response :: "string \<Rightarrow> GetAccountsRespModel" where
  \<comment> \<open>the argument is the backend status\<close>
  "mock_accounts_response st =
     \<lparr>GetAccountsRespModel.data =
        \<lparr>getContext =
           \<lparr>sysStatus = \<lparr>backend = \<lparr>account = st\<rparr>\<rparr>,
            person = \<lparr>assets = [mock_asset ''1234'' ''Brokerage'', mock_asset ''5678'' ''IRA'']\<rparr>\<rparr>\<rparr>\<rparr>"

definition mock_history :: "GetTransactionsRespHistoryModel list" where
  "mock_history =
     [\<lparr>GetTransactionsRespHistoryModel.acctNum = ''1234'', amount = ''$1,234.56'',
       date = ''2025-11-28T00:00:00.000Z'', description = ''YOU BOUGHT'',
       intradayInd = False, orderNumber = ''A1''\<rparr>,
      \<lparr>GetTransactionsRespHistoryModel.acctNum = ''1234'', amount = [],
       date = ''2025-11-28T00:00:00.000Z'', description = ''PENDING'',
       intradayInd = True, orderNumber = []\<rparr>]"

definition mock_transactions_response :: GetTransactionsRespModel where
  "mock_transactions_response =
     \<lparr>GetTransactionsRespModel.data = \<lparr>getTransactions = \<lparr>historys = mock_history\<rparr>\<rparr>\<rparr>"

definition MockEvaluator :: "string \<Rightarrow> EvaluateFunc" where
  "MockEvaluator st history url options =
     (if url = accounts_url
      then Inr \<lparr>status = 200, resp_text = None, json = AccountsJson (mock_accounts_response st)\<rparr>
      else Inr \<lparr>status = 200, resp_text = None, json = TransactionsJson mock_transactions_response\<rparr>)"

definition mock_client :: "string \<Rightarrow> Fidelity" where
  "mock_client st = \<lparr>evaluator = MockEvaluator st, accounts = None, calls = []\<rparr>"

definition account_1234 :: Account where
  "account_1234 = \<lparr>Account.number = ''1234'', Account.name = ''Brokerage''\<rparr>"

definition account_5678 :: Account where
  "account_5678 = \<lparr>Account.number = ''5678'', Account.name = ''IRA''\<rparr>"

text \<open>
  Two local time zones of the environment, as offsets in milliseconds: UTC, and five hours
  behind UTC. And the first rows of the table of America/New_York: local mean time,
  4:56:02 behind UTC, until 18 November 1883, 17:00 UTC, and eastern standard time from
  then on.
\<close>

definition local_UTC :: "int \<Rightarrow> int" where
  "local_UTC t = 0"

definition local_EST :: "int \<Rightarrow> int" where
  "local_EST t = - 18000000"



text \<open>
  The accounts of the round trip of the spec, and the request document that the example
  template renders for them and the range from 1 January to 31 January 2024.
\<close>

definition account_111 :: Account where
  "account_111 = \<lparr>Account.number = ''111'', Account.name = ''A''\<rparr>"

definition account_222 :: Account where
  "account_222 = \<lparr>Account.number = ''222'', Account.name = ''B''\<rparr>"

definition example_request :: jvalue where
  "example_request =
     JObject
       [(''operationName'', JString ''getTransactions''),
        (''variables'',
         JObject
           [(''isNewOrderApi'', JBool True),
            (''isSupportCrypto'', JBool True),
            (''hideDCOrders'', JBool True),
            (''acctIdList'', JString []),
            (''acctDetailList'',
             JArray
               [JObject [(''acctNum'', JString ''111''),
                         (''acctType'', JString ''Brokerage''),
                         (''name'', JString ''QQ=='')],
                JObject [(''acctNum'', JString ''222''),
                         (''acctType'', JString ''Brokerage''),
                         (''name'', JString ''Qg=='')]]),
            (''searchCriteriaDetail'',
             JObject
               [(''timePeriod'', JNumber 90),
                (''txnCat'', JNull),
                (''viewType'', JString ''NON_CORE''),
                (''histSortDir'', JString ''D''),
                (''acctHistSort'', JString ''DATE''),
                (''hasBasketName'', JBool True),
                (''txnFromDate'', JString ''1704085200''),
                (''txnToDate'', JString ''1706677200'')])]),
        (''query'', JString ''query getTransactions'')]"

text \<open>The JSON text of that document, as \<^verbatim>\<open>JSON.stringify\<close> writes it.\<close>

definition example_body :: string where
  \<open>example_body =
     ''{"operationName":"getTransactions","variables":{''
     @ ''"isNewOrderApi":true,"isSupportCrypto":true,"hideDCOrders":true,"acctIdList":"",''
     @ ''"acctDetailList":[{"acctNum":"111","acctType":"Brokerage","name":"QQ=="},''
     @ ''{"acctNum":"222","acctType":"Brokerage","name":"Qg=="}],''
     @ ''"searchCriteriaDetail":{"timePeriod":90,"txnCat":null,"viewType":"NON_CORE",''
     @ ''"histSortDir":"D","acctHistSort":"DATE","hasBasketName":true,''
     @ ''"txnFromDate":"1704085200","txnToDate":"1706677200"}},''
     @ ''"query":"query getTransactions"}''\<close>


section \<open>JSON: parsing reads back what stringify writes\<close>

lemma char_eq_code: "(c = d) = ((of_char c :: nat) = of_char d)"
  by simp

lemma hex_val_hex_digit: "k < 16 \<Longrightarrow> hex_val (hex_digit k) = Some k"
  by (simp add: hex_val_def hex_digit_def Let_def)

lemma parse_chars_escape:
  "parse_chars (escape_char c @ r) = cons_fst c (parse_chars r)"
proof -
  let ?n = "of_char c :: nat"
  have lt: "?n < 256" by simp
  consider "?n = 34" | "?n = 92" | "?n = 8" | "?n = 9" | "?n = 10" | "?n = 12" | "?n = 13"
    | "?n < 32" "?n \<notin> {8, 9, 10, 12, 13}" | "32 \<le> ?n" "?n \<noteq> 34" "?n \<noteq> 92"
    by fastforce
  then show ?thesis
  proof cases
    case 8
    have c: "c = char_of (16 * (?n div 16) + ?n mod 16)" by simp
    have h1: "hex_val (hex_digit (?n div 16)) = Some (?n div 16)"
      using 8 by (intro hex_val_hex_digit) simp
    have h2: "hex_val (hex_digit (?n mod 16)) = Some (?n mod 16)"
      by (intro hex_val_hex_digit) simp
    have h0: "hex_val CHR ''0'' = Some 0" by (simp add: hex_val_def)
    have ne: "c \<noteq> CHR 0x22" "c \<noteq> CHR 0x5C" using 8 by (auto simp: char_eq_code)
    show ?thesis
      using 8 h1 h2 h0 c
      by (simp add: escape_char_def Let_def)
  next
    case 9
    then have ne: "c \<noteq> CHR 0x22" "c \<noteq> CHR 0x5C" by (auto simp: char_eq_code)
    show ?thesis using 9 ne
      by (cases r) (auto simp add: escape_char_def Let_def)
  next
    case 1
    then have "c = CHR 0x22" by (simp add: char_eq_code)
    then show ?thesis by (simp add: escape_char_def unescape_def)
  next
    case 2
    then have "c = CHR 0x5C" by (simp add: char_eq_code)
    then show ?thesis by (simp add: escape_char_def unescape_def)
  next
    case 3
    then have "c = CHR 0x08" by (simp add: char_eq_code)
    then show ?thesis by (simp add: escape_char_def unescape_def)
  next
    case 4
    then have "c = CHR 0x09" by (simp add: char_eq_code)
    then show ?thesis by (simp add: escape_char_def unescape_def)
  next
    case 5
    then have "c = CHR 0x0A" by (simp add: char_eq_code)
    then show ?thesis by (simp add: escape_char_def unescape_def)
  next
    case 6
    then have "c = CHR 0x0C" by (simp add: char_eq_code)
    then show ?thesis by (simp add: escape_char_def unescape_def)
  next
    case 7
    then have "c = CHR 0x0D" by (simp add: char_eq_code)
    then show ?thesis by (simp add: escape_char_def unescape_def)
  qed
qed

lemma parse_chars_string:
  "parse_chars (concat (map escape_char s) @ CHR 0x22 # r) = Some (s, r)"
  by (induction s) (simp_all add: parse_chars_escape cons_fst_def)

lemma skip_ws_quote: "skip_ws (CHR 0x22 # r) = CHR 0x22 # r"
  by (simp add: skip_ws_def json_ws_def)

lemma skip_ws_Nil: "skip_ws [] = []"
  by (simp add: skip_ws_def)

lemma JSON_parse_string: "JSON_parse (stringify (JString s)) = Some (JString s)"
  using parse_chars_string [of s "[]"]
  by (simp add: JSON_parse_def quote_def skip_ws_quote skip_ws_Nil)

lemma nat_code_int: "(of_char c :: nat) = nat (of_char c :: int)"
  by (metis nat_int of_nat_of_char)

lemma digit_char:
  assumes "0 \<le> d" "d < (10::int)"
  shows "(of_char (char_of (48 + d)) :: int) = 48 + d"
    and "(of_char (char_of (48 + d)) :: nat) = nat (48 + d)"
proof -
  show a: "(of_char (char_of (48 + d)) :: int) = 48 + d" using assms by simp
  show "(of_char (char_of (48 + d)) :: nat) = nat (48 + d)"
    using a by (simp only: nat_code_int)
qed

lemma is_digit_digit_char: "0 \<le> d \<Longrightarrow> d < (10::int) \<Longrightarrow> is_digit (char_of (48 + d))"
  by (simp add: is_digit_def digit_char(2)) linarith

lemma digit_val_digit_char: "0 \<le> d \<Longrightarrow> d < (10::int) \<Longrightarrow> digit_val (char_of (48 + d)) = d"
  by (simp add: digit_val_def digit_char(1))

declare show_digits.simps [simp del]

lemma digits_val_snoc: "digits_val (ds @ [c]) = 10 * digits_val ds + digit_val c"
  by (simp add: digits_val_def)

lemma show_digits_props:
  "0 \<le> n \<Longrightarrow> show_digits n \<noteq> [] \<and> list_all is_digit (show_digits n)
     \<and> digits_val (show_digits n) = n
     \<and> (hd (show_digits n) = CHR ''0'' \<longrightarrow> n = 0)
     \<and> (n = 0 \<longrightarrow> show_digits n = ''0'')"
proof (induction n rule: show_digits.induct)
  case (1 n)
  show ?case
  proof (cases "n < 10")
    case True
    have e: "show_digits n = [char_of (48 + n)]"
      using True by (subst show_digits.simps) simp
    have "char_of (48 + n) = CHR ''0'' \<longrightarrow> n = 0"
    proof
      assume "char_of (48 + n) = CHR ''0''"
      then have "(of_char (char_of (48 + n)) :: int) = of_char CHR ''0''" by simp
      then show "n = 0" using True 1(2) digit_char(1) [of n] by simp
    qed
    moreover have "n = 0 \<longrightarrow> show_digits n = ''0''"
      by (subst show_digits.simps) (simp add: char_of_eq_iff)
    ultimately show ?thesis
      using True 1(2) by (simp add: e is_digit_digit_char digits_val_def digit_val_digit_char)
  next
    case False
    have e: "show_digits n = show_digits (n div 10) @ [char_of (48 + n mod 10)]"
      using False by (subst show_digits.simps) simp
    have ih: "show_digits (n div 10) \<noteq> [] \<and> list_all is_digit (show_digits (n div 10))
     \<and> digits_val (show_digits (n div 10)) = n div 10
     \<and> (hd (show_digits (n div 10)) = CHR ''0'' \<longrightarrow> n div 10 = 0)"
      using 1(1) [OF False] 1(2) by simp
    have nz: "n div 10 \<noteq> 0" using False by simp
    show ?thesis
      using ih False nz
      by (simp add: e is_digit_digit_char digits_val_snoc digit_val_digit_char)
  qed
qed

lemma show_int_not_digit_start:
  "show_int n \<noteq> [] \<and> (hd (show_int n) = CHR ''-'' \<or> is_digit (hd (show_int n)))"
proof (cases "n < 0")
  case True
  then show ?thesis by (simp add: show_int_def)
next
  case False
  then have "show_digits n \<noteq> [] \<and> list_all is_digit (show_digits n)"
    using show_digits_props [of n] by simp
  then show ?thesis using False by (cases "show_digits n") (auto simp: show_int_def)
qed

lemma takeWhile_digits:
  "list_all is_digit ds \<Longrightarrow> delimited r \<Longrightarrow> takeWhile is_digit (ds @ r) = ds \<and> dropWhile is_digit (ds @ r) = r"
  by (induction ds) (auto simp: delimited_def is_digit_def takeWhile_eq_Nil_iff dropWhile_eq_self_iff)

lemma parse_number_show:
  assumes "delimited r"
  shows "parse_number (show_int n @ r) = Some (JNumber n, r)"
proof (cases "n < 0")
  case True
  have p: "show_digits (- n) \<noteq> [] \<and> list_all is_digit (show_digits (- n))
     \<and> digits_val (show_digits (- n)) = - n
     \<and> (hd (show_digits (- n)) = CHR ''0'' \<longrightarrow> - n = 0)"
    using show_digits_props [of "- n"] True by simp
  have t: "takeWhile is_digit (show_digits (- n) @ r) = show_digits (- n)"
          "dropWhile is_digit (show_digits (- n) @ r) = r"
    using takeWhile_digits [OF _ assms, of "show_digits (- n)"] p by auto
  show ?thesis
    using True p t assms
    by (auto simp add: parse_number_def show_int_def Let_def delimited_def)
next
  case False
  have p: "show_digits n \<noteq> [] \<and> list_all is_digit (show_digits n)
     \<and> digits_val (show_digits n) = n
     \<and> (hd (show_digits n) = CHR ''0'' \<longrightarrow> n = 0) \<and> (n = 0 \<longrightarrow> show_digits n = ''0'')"
    using show_digits_props [of n] False by simp
  have t: "takeWhile is_digit (show_digits n @ r) = show_digits n"
          "dropWhile is_digit (show_digits n @ r) = r"
    using takeWhile_digits [OF _ assms, of "show_digits n"] p by auto
  have h: "hd (show_digits n @ r) \<noteq> CHR ''-''"
    using p by (cases "show_digits n") (auto simp: is_digit_def)
  have ne: "show_digits n @ r \<noteq> []" using p by simp
  show ?thesis
    using False p t h ne assms
    by (auto simp add: parse_number_def show_int_def Let_def delimited_def)
qed

lemma skip_ws_start: "s \<noteq> [] \<Longrightarrow> \<not> json_ws (hd s) \<Longrightarrow> skip_ws (s @ r) = s @ r"
  by (cases s) (auto simp: skip_ws_def)

lemma skip_ws_Cons: "\<not> json_ws c \<Longrightarrow> skip_ws (c # r) = c # r"
  by (simp add: skip_ws_def)

lemma json_ws_chars [simp]:
  "\<not> json_ws CHR '',''" "\<not> json_ws CHR '']''" "\<not> json_ws CHR ''}''" "\<not> json_ws CHR '':''"
  "\<not> json_ws CHR ''[''" "\<not> json_ws CHR ''{''" "\<not> json_ws CHR 0x22"
  "\<not> json_ws CHR ''n''" "\<not> json_ws CHR ''t''" "\<not> json_ws CHR ''f''" "\<not> json_ws CHR ''-''"
  by (simp_all add: json_ws_def)

lemma is_digit_not_ws: "is_digit c \<Longrightarrow> \<not> json_ws c"
  by (auto simp: is_digit_def json_ws_def)

lemma is_digit_chars:
  "is_digit c \<Longrightarrow> c \<noteq> CHR 0x22 \<and> c \<noteq> CHR ''['' \<and> c \<noteq> CHR ''{'' \<and> c \<noteq> CHR ''n''
     \<and> c \<noteq> CHR ''t'' \<and> c \<noteq> CHR ''f'' \<and> c \<noteq> CHR '']'' \<and> c \<noteq> CHR ''}''"
  by (auto simp: is_digit_def)

lemma starts_value_stringify: "starts_value (stringify v)"
proof (cases v)
  case (JNumber n)
  then show ?thesis
    using show_int_not_digit_start [of n] is_digit_not_ws is_digit_chars
    by (auto simp: starts_value_def)
qed (auto simp: starts_value_def quote_def)

lemma parse_value_scalar:
  assumes "delimited r"
  shows "parse_value (Suc f) (stringify JNull @ r) = Some (JNull, r)"
    and "parse_value (Suc f) (stringify (JBool b) @ r) = Some (JBool b, r)"
    and "parse_value (Suc f) (stringify (JNumber n) @ r) = Some (JNumber n, r)"
    and "parse_value (Suc f) (stringify (JString s) @ r) = Some (JString s, r)"
proof -
  show "parse_value (Suc f) (stringify JNull @ r) = Some (JNull, r)"
    by (simp add: skip_ws_Cons)
  show "parse_value (Suc f) (stringify (JBool b) @ r) = Some (JBool b, r)"
    by (simp add: skip_ws_Cons)
  show "parse_value (Suc f) (stringify (JString s) @ r) = Some (JString s, r)"
    using parse_chars_string [of s r] by (simp add: quote_def skip_ws_Cons)
  obtain c cs where cs: "show_int n = c # cs" and c: "c = CHR ''-'' \<or> is_digit c"
    using show_int_not_digit_start [of n] by (cases "show_int n") auto
  have ws: "\<not> json_ws c" using c is_digit_not_ws by auto
  have ne: "c \<noteq> CHR 0x22 \<and> c \<noteq> CHR ''['' \<and> c \<noteq> CHR ''{'' \<and> c \<noteq> CHR ''n''
     \<and> c \<noteq> CHR ''t'' \<and> c \<noteq> CHR ''f''"
    using c is_digit_chars by auto
  have "parse_value (Suc f) (c # cs @ r) = parse_number (c # cs @ r)"
    using ne by (simp add: skip_ws_Cons ws)
  then show "parse_value (Suc f) (stringify (JNumber n) @ r) = Some (JNumber n, r)"
    using parse_number_show [OF assms, of n] by (simp add: cs)
qed

lemma delimited_chars [simp]:
  "delimited (CHR '','' # r)" "delimited (CHR '']'' # r)" "delimited (CHR ''}'' # r)" "delimited []"
  by (simp_all add: delimited_def)

lemma parse_elements_ok:
  assumes ih: "\<And>v f r. v \<in> set vs \<Longrightarrow> delimited r \<Longrightarrow> length (stringify v) \<le> f
                 \<Longrightarrow> parse_value f (stringify v @ r) = Some (v, r)"
  shows "vs \<noteq> [] \<Longrightarrow> length (join '','' (map stringify vs)) < f
         \<Longrightarrow> parse_elements f (join '','' (map stringify vs) @ CHR '']'' # r) = Some (vs, r)"
  using ih
proof (induction vs arbitrary: f)
  case Nil
  then show ?case by simp
next
  case (Cons v vs)
  obtain g where f: "f = Suc g" using Cons.prems(2) by (cases f) auto
  show ?case
  proof (cases vs)
    case Nil
    have "parse_value g (stringify v @ CHR '']'' # r) = Some (v, CHR '']'' # r)"
      using Cons.prems(2) Nil f by (intro Cons.prems(3)) auto
    then show ?thesis by (simp add: Nil f skip_ws_Cons)
  next
    case (Cons w ws)
    let ?rest = "join '','' (map stringify vs) @ CHR '']'' # r"
    have len: "length (stringify v) \<le> g" "length (join '','' (map stringify vs)) < g"
      using Cons.prems(2) Cons f by auto
    have "parse_value g (stringify v @ CHR '','' # ?rest) = Some (v, CHR '','' # ?rest)"
      using len by (intro Cons.prems(3)) auto
    moreover have "parse_elements g ?rest = Some (vs, r)"
      using len Cons Cons.prems(3) by (intro Cons.IH) auto
    ultimately show ?thesis
      by (simp add: Cons f skip_ws_Cons cons_fst_def)
  qed
qed

lemma parse_members_ok:
  assumes ih: "\<And>k v f r. (k, v) \<in> set ms \<Longrightarrow> delimited r \<Longrightarrow> length (stringify v) \<le> f
                 \<Longrightarrow> parse_value f (stringify v @ r) = Some (v, r)"
  shows "ms \<noteq> [] \<Longrightarrow> length (join '','' (map member_text ms)) < f
         \<Longrightarrow> parse_members f (join '','' (map member_text ms) @ CHR ''}'' # r) = Some (ms, r)"
  using ih
proof (induction ms arbitrary: f)
  case Nil
  then show ?case by simp
next
  case (Cons m ms)
  obtain k v where m: "m = (k, v)" by (cases m)
  obtain g where f: "f = Suc g" using Cons.prems(2) by (cases f) auto
  have key: "\<And>t. parse_chars (concat (map escape_char k) @ CHR 0x22 # t) = Some (k, t)"
    by (rule parse_chars_string)
  show ?case
  proof (cases ms)
    case Nil
    have "parse_value g (stringify v @ CHR ''}'' # r) = Some (v, CHR ''}'' # r)"
      using Cons.prems(2) Nil f m by (intro Cons.prems(3) [of k]) (auto simp: quote_def)
    then show ?thesis
      using key by (simp add: Nil f m quote_def skip_ws_Cons)
  next
    case (Cons m' ms')
    let ?rest = "join '','' (map member_text ms) @ CHR ''}'' # r"
    have len: "length (stringify v) \<le> g" "length (join '','' (map member_text ms)) < g"
      using Cons.prems(2) Cons f m by (auto simp: quote_def)
    have "parse_value g (stringify v @ CHR '','' # ?rest) = Some (v, CHR '','' # ?rest)"
      using len m by (intro Cons.prems(3) [of k]) auto
    moreover have "parse_members g ?rest = Some (ms, r)"
      using len Cons Cons.prems(3) by (intro Cons.IH) auto
    ultimately show ?thesis
      using key by (simp add: Cons f m quote_def skip_ws_Cons cons_fst_def)
  qed
qed

lemma parse_value_stringify:
  "delimited r \<Longrightarrow> length (stringify v) \<le> f \<Longrightarrow> parse_value f (stringify v @ r) = Some (v, r)"
proof (induction v arbitrary: f r)
  case JNull
  then obtain g where "f = Suc g" by (cases f) auto
  then show ?case using parse_value_scalar(1) [OF JNull.prems(1)] by blast
next
  case (JBool b)
  then obtain g where "f = Suc g" by (cases f) (auto split: if_splits)
  then show ?case using parse_value_scalar(2) [OF JBool.prems(1)] by blast
next
  case (JNumber n)
  then obtain g where "f = Suc g"
    using show_int_not_digit_start [of n] by (cases f) auto
  then show ?case using parse_value_scalar(3) [OF JNumber.prems(1)] by blast
next
  case (JString s)
  then obtain g where "f = Suc g" by (cases f) (auto simp: quote_def)
  then show ?case using parse_value_scalar(4) [OF JString.prems(1)] by blast
next
  case (JArray vs)
  obtain g where f: "f = Suc g" using JArray.prems(2) by (cases f) auto
  show ?case
  proof (cases "vs = []")
    case True
    then show ?thesis by (simp add: f skip_ws_Cons)
  next
    case False
    let ?body = "join '','' (map stringify vs)"
    obtain v vs' where vs: "vs = v # vs'" using False by (cases vs) auto
    have sv: "starts_value ?body"
      using starts_value_stringify [of v]
      by (cases vs') (auto simp: vs starts_value_def)
    have sk: "skip_ws (?body @ CHR '']'' # r) = ?body @ CHR '']'' # r"
      using sv by (intro skip_ws_start) (auto simp: starts_value_def)
    have hd: "?body @ CHR '']'' # r \<noteq> [] \<and> hd (?body @ CHR '']'' # r) \<noteq> CHR '']''"
      using sv by (auto simp: starts_value_def)
    have "parse_elements g (?body @ CHR '']'' # r) = Some (vs, r)"
      using False JArray.prems(2) f JArray.IH by (intro parse_elements_ok) auto
    then show ?thesis
      using sk hd by (simp add: f skip_ws_Cons)
  qed
next
  case (JObject ms)
  obtain g where f: "f = Suc g" using JObject.prems(2) by (cases f) auto
  show ?case
  proof (cases "ms = []")
    case True
    then show ?thesis by (simp add: f skip_ws_Cons)
  next
    case False
    let ?body = "join '','' (map member_text ms)"
    obtain m ms' where ms: "ms = m # ms'" using False by (cases ms) auto
    have b: "?body \<noteq> [] \<and> hd ?body = CHR 0x22"
      by (cases ms') (auto simp: ms quote_def)
    have sk: "skip_ws (?body @ CHR ''}'' # r) = ?body @ CHR ''}'' # r"
      using b by (intro skip_ws_start) auto
    have hd: "?body @ CHR ''}'' # r \<noteq> [] \<and> hd (?body @ CHR ''}'' # r) \<noteq> CHR ''}''"
      using b by auto
    have ih: "\<And>k v f r. (k, v) \<in> set ms \<Longrightarrow> delimited r \<Longrightarrow> length (stringify v) \<le> f
                 \<Longrightarrow> parse_value f (stringify v @ r) = Some (v, r)"
      using JObject.IH by (auto simp: snds.simps)
    have "parse_members g (?body @ CHR ''}'' # r) = Some (ms, r)"
      using False JObject.prems(2) f ih by (intro parse_members_ok) auto
    then show ?thesis
      using sk hd by (simp add: f skip_ws_Cons)
  qed
qed

lemma JSON_parse_stringify: "JSON_parse (stringify v) = Some v"
  using parse_value_stringify [of "[]" v "Suc (length (stringify v))"]
  by (simp add: JSON_parse_def skip_ws_Nil)

section \<open>The account cache and the resolution of identifiers\<close>

lemma fetch_calls: "calls (snd (fetch self url opts)) = calls self @ [(url, opts)]"
  by (simp add: fetch_def Let_def split: sum.splits)

lemma fetch_accounts: "accounts (snd (fetch self url opts)) = accounts self"
  by (simp add: fetch_def Let_def split: sum.splits)

lemma fetch_evaluator: "evaluator (snd (fetch self url opts)) = evaluator self"
  by (simp add: fetch_def Let_def split: sum.splits)

lemma fetchAccounts_calls:
  "calls (snd (fetchAccounts rt self)) = calls self @ [(accounts_url, getAccountsOptions rt)]"
  using fetch_calls [of self accounts_url "getAccountsOptions rt"]
  by (auto simp: fetchAccounts_def split: prod.splits sum.splits)

lemma fetchAccounts_accounts: "accounts (snd (fetchAccounts rt self)) = accounts self"
  using fetch_accounts [of self accounts_url "getAccountsOptions rt"]
  by (auto simp: fetchAccounts_def split: prod.splits sum.splits)

lemma getAccounts_cached: "accounts self = Some m \<Longrightarrow> getAccounts rt self = (Inr m, self)"
  by (simp add: getAccounts_def)

lemma getAccounts_Inr_cache:
  "getAccounts rt self = (Inr m, s1) \<Longrightarrow> accounts s1 = Some m"
  by (auto simp: getAccounts_def split: option.splits prod.splits sum.splits)

lemma getAccounts_Inl_cache:
  "getAccounts rt self = (Inl e, s1) \<Longrightarrow> accounts s1 = None \<and> accounts self = None"
  using fetchAccounts_accounts [of rt self]
  by (auto simp: getAccounts_def split: option.splits prod.splits sum.splits)

lemma Map_set_same:
  "Map_set k (f k) (map (\<lambda>i. (i, f i)) ks) = map (\<lambda>i. (i, f i)) (if k \<in> set ks then ks else ks @ [k])"
  by (induction ks) auto

lemma resolve_cached:
  "accounts self = Some m \<Longrightarrow>
   resolve_accounts rt self ids (map (\<lambda>i. (i, Map_get m i)) ks)
     = (Inr (map (\<lambda>i. (i, Map_get m i))
               (fold (\<lambda>x acc. if x \<in> set acc then acc else acc @ [x]) ids ks)), self)"
proof (induction ids arbitrary: ks)
  case Nil
  then show ?case by simp
next
  case (Cons a ids)
  have "getAccount rt self a = (Inr (Map_get m a), self)"
    using Cons.prems by (simp add: getAccount_def getAccounts_cached)
  then show ?case
    using Cons.IH [OF Cons.prems, of "if a \<in> set ks then ks else ks @ [a]"]
    by (simp add: Map_set_same)
qed

lemma resolve_empty: "resolve_accounts rt self [] d = (Inr d, self)"
  by simp

lemma resolve_ok:
  assumes "getAccounts rt self = (Inr m, s1)" and "ids \<noteq> []"
  shows "resolve_accounts rt self ids [] = (Inr (map (\<lambda>i. (i, Map_get m i)) (first_occurrences ids)), s1)"
proof -
  obtain a rest where ids: "ids = a # rest" using assms(2) by (cases ids) auto
  have c: "accounts s1 = Some m" using assms(1) by (rule getAccounts_Inr_cache)
  have "resolve_accounts rt self ids [] = resolve_accounts rt s1 rest (map (\<lambda>i. (i, Map_get m i)) [a])"
    using assms(1) by (simp add: ids getAccount_def)
  also have "\<dots> = (Inr (map (\<lambda>i. (i, Map_get m i))
               (fold (\<lambda>x acc. if x \<in> set acc then acc else acc @ [x]) rest [a])), s1)"
    using c by (rule resolve_cached)
  finally show ?thesis by (simp add: first_occurrences_def ids)
qed

lemma resolve_fail:
  assumes "getAccounts rt self = (Inl e, s1)" and "ids \<noteq> []"
  shows "resolve_accounts rt self ids d = (Inl e, s1)"
  using assms by (cases ids) (auto simp: getAccount_def)

lemma missing_of_map:
  "missing_of (map (\<lambda>i. (i, f i)) ks) = filter (\<lambda>i. f i = None) ks"
  by (induction ks) (auto simp: missing_of_def)

lemma accts_of_map:
  "accts_of (map (\<lambda>i. (i, f i)) ks) = map (\<lambda>i. the (f i)) (filter (\<lambda>i. f i \<noteq> None) ks)"
  by (induction ks) (auto simp: accts_of_def)

lemma set_first_occurrences_aux:
  "set (fold (\<lambda>x acc. if x \<in> set acc then acc else acc @ [x]) xs acc) = set xs \<union> set acc"
  by (induction xs arbitrary: acc) auto

lemma set_first_occurrences: "set (first_occurrences xs) = set xs"
  by (simp add: first_occurrences_def set_first_occurrences_aux)

lemma distinct_first_occurrences_aux:
  "distinct acc \<Longrightarrow> distinct (fold (\<lambda>x acc. if x \<in> set acc then acc else acc @ [x]) xs acc)"
  by (induction xs arbitrary: acc) auto

lemma distinct_first_occurrences: "distinct (first_occurrences xs)"
  by (simp add: first_occurrences_def distinct_first_occurrences_aux)

lemma first_occurrences_distinct_aux:
  "distinct (acc @ xs) \<Longrightarrow> fold (\<lambda>x acc. if x \<in> set acc then acc else acc @ [x]) xs acc = acc @ xs"
  by (induction xs arbitrary: acc) auto

lemma first_occurrences_distinct: "distinct xs \<Longrightarrow> first_occurrences xs = xs"
  using first_occurrences_distinct_aux [of "[]" xs] by (simp add: first_occurrences_def)

lemma urls_differ: "transactions_url \<noteq> accounts_url"
  by (simp add: transactions_url_def accounts_url_def)

section \<open>The steps of getTransactions\<close>

lemma midnight_fields:
  assumes "t mod msPerDay = 0"
  shows "HourFromTime t = 0" "MinFromTime t = 0" "SecFromTime t = 0" "msFromTime t = 0"
proof -
  obtain k where k: "t = 86400000 * k"
    using assms by (auto simp: msPerDay_def)
  show "HourFromTime t = 0" by (simp add: HourFromTime_def k)
  show "MinFromTime t = 0" by (simp add: MinFromTime_def k)
  show "SecFromTime t = 0" by (simp add: SecFromTime_def k)
  show "msFromTime t = 0" by (simp add: msFromTime_def k)
qed

lemma dayOffset_midnight: "t mod msPerDay = 0 \<Longrightarrow> dayOffset (Date_ms t) = Finite 0"
  by (simp add: dayOffset_def getUTCHours_def getUTCMinutes_def getUTCSeconds_def
      getUTCMilliseconds_def date_field_def midnight_fields num_of_int_def js_div_def js_add_def
      is_zero_def is_inf_def is_neg_def signed_zero_def)

lemma checkDate_midnight: "t mod msPerDay = 0 \<Longrightarrow> checkDate rt (Date_ms t) = []"
  by (simp add: checkDate_def dayOffset_midnight ne_zero_def is_zero_def)

lemma date_message_midnight:
  "s mod msPerDay = 0 \<Longrightarrow> e mod msPerDay = 0 \<Longrightarrow> date_message rt (Date_ms s) (Date_ms e) = []"
  by (simp add: date_message_def checkDate_midnight)

lemma getTransactionsBody_Inr:
  "fidelityDate rt start = Inr s \<Longrightarrow> fidelityDate rt end_date = Inr e \<Longrightarrow>
   getTransactionsBody rt accts start end_date =
     Inr (render_getTransactionsBody (getTransactionsBody_file rt)
            \<lparr>ctx_accounts = accountDicts accts, ctx_start = s, ctx_end = e\<rparr>)"
  by (simp add: getTransactionsBody_def)

lemma getTransactionsOptions_Inr:
  "getTransactionsBody rt accts start end_date = Inr doc \<Longrightarrow>
   getTransactionsOptions rt accts start end_date =
     Inr (JObject (getTransactionsOptions_file rt
                   @ [(''body'', JString (stringify (json_of_req doc)))]))"
  by (simp add: getTransactionsOptions_def render_getTransactionsOptions_def
      JSON_parse_string del: stringify.simps)

lemma getAccounts_calls:
  "calls (snd (getAccounts rt self)) =
     (if accounts self = None then calls self @ [(accounts_url, getAccountsOptions rt)]
      else calls self)"
  using fetchAccounts_calls [of rt self]
  by (auto simp: getAccounts_def split: option.splits prod.splits sum.splits)

lemma snd_outcome:
  "snd (case p of
          (Inl e, self2) \<Rightarrow> (Inl e, self2)
        | (Inr respJson, self2) \<Rightarrow>
            (case f respJson of Inl m \<Rightarrow> (g m, self2) | Inr ts \<Rightarrow> (h ts, self2)))
     = snd p"
  by (simp split: prod.splits sum.splits)

lemma getTransactions_no_ids:
  assumes "date_message rt start end_date = []"
    and "getTransactionsOptions rt [] start end_date = Inr options"
  shows "getTransactions_method rt self [] start end_date =
           (case fetch self transactions_url options of
              (Inl e, self2) \<Rightarrow> (Inl e, self2)
            | (Inr respJson, self2) \<Rightarrow>
                (case parse_transactions rt respJson of
                   Inl m \<Rightarrow> (Inl (FidelityError
                                  (''Failed to parse get_transactions response: '' @ m)), self2)
                 | Inr ts \<Rightarrow> (Inr ts, self2)))"
  using assms by (simp add: getTransactions_method_def missing_of_def accts_of_def)

lemma getTransactions_after_resolution:
  assumes "date_message rt start end_date = []"
    and "getAccounts rt self = (Inr m, self1)"
    and "ids \<noteq> []"
  shows "getTransactions_method rt self ids start end_date =
           (if filter (\<lambda>i. Map_get m i = None) (first_occurrences ids) \<noteq> []
            then (Inl (FidelityError
                         (''Account(s) not found: ''
                          @ join '', '' (filter (\<lambda>i. Map_get m i = None) (first_occurrences ids)))),
                  self1)
            else
              (case getTransactionsOptions rt
                      (map (\<lambda>i. the (Map_get m i))
                         (filter (\<lambda>i. Map_get m i \<noteq> None) (first_occurrences ids)))
                      start end_date of
                 Inl e \<Rightarrow> (Inl e, self1)
               | Inr options \<Rightarrow>
                   (case fetch self1 transactions_url options of
                      (Inl e, self2) \<Rightarrow> (Inl e, self2)
                    | (Inr respJson, self2) \<Rightarrow>
                        (case parse_transactions rt respJson of
                           Inl msg \<Rightarrow>
                             (Inl (FidelityError
                                     (''Failed to parse get_transactions response: '' @ msg)),
                              self2)
                         | Inr ts \<Rightarrow> (Inr ts, self2)))))"
  using assms
  by (simp add: getTransactions_method_def resolve_ok missing_of_map accts_of_map)

lemma getTransactions_resolution_fails:
  assumes "date_message rt start end_date = []"
    and "getAccounts rt self = (Inl e, self1)"
    and "ids \<noteq> []"
  shows "getTransactions_method rt self ids start end_date = (Inl e, self1)"
  using assms by (simp add: getTransactions_method_def resolve_fail)

lemma getTransactions_invalid:
  "date_message rt start end_date \<noteq> [] \<Longrightarrow>
   getTransactions_method rt self ids start end_date =
     (Inl (FidelityError (''Invalid date(s): '' @ date_message rt start end_date)), self)"
  by (simp add: getTransactions_method_def)

text \<open>A call of getTransactions leaves a filled cache as it is and requests no account
  list.\<close>

lemma getTransactions_cached:
  assumes "accounts self = Some m"
  shows "accounts (snd (getTransactions_method rt self ids start end_date)) = Some m
         \<and> account_fetches (snd (getTransactions_method rt self ids start end_date))
             = account_fetches self"
proof (cases "date_message rt start end_date = []")
  case False
  then show ?thesis using assms by (simp add: getTransactions_invalid)
next
  case True
  have g: "getAccounts rt self = (Inr m, self)" using assms by (rule getAccounts_cached)
  have r: "resolve_accounts rt self ids [] = (Inr (map (\<lambda>i. (i, Map_get m i)) (first_occurrences ids)), self)"
    using resolve_cached [OF assms, of rt ids "[]"] by (simp add: first_occurrences_def)
  have f: "\<And>options r s. fetch self transactions_url options = (r, s) \<Longrightarrow>
             accounts s = Some m \<and> account_fetches s = account_fetches self"
  proof -
    fix options r s
    assume "fetch self transactions_url options = (r, s)"
    then have "s = snd (fetch self transactions_url options)" by simp
    then show "accounts s = Some m \<and> account_fetches s = account_fetches self"
      using assms by (simp add: fetch_accounts fetch_calls account_fetches_def urls_differ)
  qed
  show ?thesis
    using True r assms f
    by (auto simp add: getTransactions_method_def split: sum.splits prod.splits)
qed

lemma getTransactions_in_turn_cached:
  "accounts self = Some m \<Longrightarrow>
   accounts (getTransactions_in_turn rt self reqs) = Some m
   \<and> account_fetches (getTransactions_in_turn rt self reqs) = account_fetches self"
proof (induction reqs arbitrary: self)
  case Nil
  then show ?case by simp
next
  case (Cons req reqs)
  obtain ids start end_date where req: "req = (ids, start, end_date)" by (cases req)
  let ?s = "snd (getTransactions_method rt self ids start end_date)"
  have s: "accounts ?s = Some m \<and> account_fetches ?s = account_fetches self"
    using Cons.prems by (rule getTransactions_cached)
  then show ?case using Cons.IH [of ?s] by (simp add: req)
qed

subsection \<open>The mock evaluator at work\<close>

lemma mock_accountMap:
  "accountMap_of [mock_asset ''1234'' ''Brokerage'', mock_asset ''5678'' ''IRA'']
     = [(''1234'', account_1234), (''5678'', account_5678)]"
  by (simp add: accountMap_of_def mock_asset_def account_1234_def account_5678_def)

lemma toLowerCase_OK: "toLowerCase ''OK'' = ''ok''"
  by code_simp

lemma mock_getAccounts_ok:
  "getAccounts (mock_runtime tza) (mock_client ''OK'') =
     (Inr [(''1234'', account_1234), (''5678'', account_5678)],
      \<lparr>evaluator = MockEvaluator ''OK'',
       accounts = Some [(''1234'', account_1234), (''5678'', account_5678)],
       calls = [(accounts_url, JObject [(''method'', JString ''POST'')])]\<rparr>)"
  by (simp add: getAccounts_def fetchAccounts_def fetch_def mock_client_def MockEvaluator_def
      parse_accounts_def mock_accounts_response_def mock_accountMap getAccountsOptions_def
      mock_runtime_def toLowerCase_OK)


section \<open>The backend status\<close>

lemma lower_char_o: "lower_char c = CHR ''o'' \<longleftrightarrow> c = CHR ''o'' \<or> c = CHR ''O''"
proof -
  have lt: "(of_char c :: nat) < 256" by simp
  have a: "\<And>n::nat. n < 224 \<Longrightarrow> char_of (n + 32) = CHR ''o'' \<longleftrightarrow> n = 79"
    by (simp add: char_of_eq_iff take_bit_eq_mod)
  have b: "c = CHR ''O'' \<longleftrightarrow> (of_char c :: nat) = 79" "c = CHR ''o'' \<longleftrightarrow> (of_char c :: nat) = 111"
    by (simp_all add: char_eq_code)
  show ?thesis
    using lt by (auto simp add: lower_char_def Let_def a b)
qed

lemma lower_char_k: "lower_char c = CHR ''k'' \<longleftrightarrow> c = CHR ''k'' \<or> c = CHR ''K''"
proof -
  have lt: "(of_char c :: nat) < 256" by simp
  have a: "\<And>n::nat. n < 224 \<Longrightarrow> char_of (n + 32) = CHR ''k'' \<longleftrightarrow> n = 75"
    by (simp add: char_of_eq_iff take_bit_eq_mod)
  have b: "c = CHR ''K'' \<longleftrightarrow> (of_char c :: nat) = 75" "c = CHR ''k'' \<longleftrightarrow> (of_char c :: nat) = 107"
    by (simp_all add: char_eq_code)
  show ?thesis
    using lt by (auto simp add: lower_char_def Let_def a b)
qed

lemma toLowerCase_ok_iff:
  "toLowerCase st = ''ok'' \<longleftrightarrow> st \<in> {''ok'', ''Ok'', ''oK'', ''OK''}"
proof (cases st)
  case Nil
  then show ?thesis by (simp add: toLowerCase_def)
next
  case (Cons a r)
  show ?thesis
  proof (cases r)
    case Nil
    then show ?thesis by (simp add: Cons toLowerCase_def)
  next
    case (Cons b r')
    show ?thesis
      by (cases r') (auto simp add: \<open>st = a # r\<close> Cons toLowerCase_def lower_char_o lower_char_k)
  qed
qed

lemma getAccounts_fetch:
  assumes "accounts self = None"
    and "evaluator self (calls self) accounts_url (getAccountsOptions rt) = Inr resp"
    and "status resp = 200"
  shows "getAccounts rt self =
           (case parse_accounts (json resp) of
              Inl m \<Rightarrow>
                (Inl (FidelityError (''Failed to parse get_accounts response: '' @ m)),
                 self\<lparr>calls := calls self @ [(accounts_url, getAccountsOptions rt)]\<rparr>)
            | Inr accountMap \<Rightarrow>
                (Inr accountMap,
                 self\<lparr>calls := calls self @ [(accounts_url, getAccountsOptions rt)],
                      accounts := Some accountMap\<rparr>))"
  using assms
  by (simp add: getAccounts_def fetchAccounts_def fetch_def Let_def split: sum.splits)

text \<open>
  Claim C9. When the account cache is unset and the account-list response arrives with
  status 200 and the shape of the response model, getAccounts looks at the backend status
  \<open>st\<close> of the response. The status counts as ok exactly when it is one of \<open>ok\<close>, \<open>Ok\<close>,
  \<open>oK\<close>, \<open>OK\<close>. If it is not, getAccounts fails with a FidelityError whose message ends
  with \<open>Fidelity backend not ok\<close> and the status, and the cache stays unset; if it is,
  getAccounts raises no error: it returns the account map and caches it.
\<close>

theorem C9_backend_status:
  assumes "accounts self = None"
    and "evaluator self (calls self) accounts_url (getAccountsOptions rt) = Inr resp"
    and "status resp = 200"
    and "json resp = AccountsJson r"
    and "st = account (backend (sysStatus (getContext (GetAccountsRespModel.data r))))"
  shows "((toLowerCase st = ''ok'') = (st \<in> {''ok'', ''Ok'', ''oK'', ''OK''}))
       \<and> (toLowerCase st \<noteq> ''ok'' \<longrightarrow>
            fst (getAccounts rt self) =
              Inl (FidelityError
                     (''Failed to parse get_accounts response: Fidelity backend not ok '' @ st))
            \<and> accounts (snd (getAccounts rt self)) = None)
       \<and> (toLowerCase st = ''ok'' \<longrightarrow>
            fst (getAccounts rt self) =
              Inr (accountMap_of (assets (person (getContext (GetAccountsRespModel.data r)))))
            \<and> accounts (snd (getAccounts rt self)) =
                Some (accountMap_of (assets (person (getContext (GetAccountsRespModel.data r))))))"
proof -
  have "toLowerCase st \<noteq> ''ok'' \<Longrightarrow>
        parse_accounts (json resp) = Inl (''Fidelity backend not ok '' @ st)"
    using assms(4,5) by (simp add: parse_accounts_def Let_def)
  moreover have "toLowerCase st = ''ok'' \<Longrightarrow>
        parse_accounts (json resp) =
          Inr (accountMap_of (assets (person (getContext (GetAccountsRespModel.data r)))))"
    using assms(4,5) by (simp add: parse_accounts_def Let_def)
  ultimately show ?thesis
    using getAccounts_fetch [OF assms(1,2,3)] assms(1) toLowerCase_ok_iff [of st]
    by (cases "toLowerCase st = ''ok''") simp_all
qed

lemma mock_evaluator_accounts:
  "evaluator (mock_client st) (calls (mock_client st)) accounts_url options =
     Inr \<lparr>status = 200, resp_text = None, json = AccountsJson (mock_accounts_response st)\<rparr>"
  by (simp add: mock_client_def MockEvaluator_def)

lemma mock_status:
  "st = account (backend (sysStatus (getContext
          (GetAccountsRespModel.data (mock_accounts_response st)))))"
  by (simp add: mock_accounts_response_def)

lemma mock_assets:
  "assets (person (getContext (GetAccountsRespModel.data (mock_accounts_response st))))
     = [mock_asset ''1234'' ''Brokerage'', mock_asset ''5678'' ''IRA'']"
  by (simp add: mock_accounts_response_def)

lemma mock_client_unset: "accounts (mock_client st) = None"
  by (simp add: mock_client_def)

theorem C9_backend_status_witness:
  "fst (getAccounts (mock_runtime (\<lambda>t. 0)) (mock_client ''DOWN'')) =
     Inl (FidelityError ''Failed to parse get_accounts response: Fidelity backend not ok DOWN'')
   \<and> accounts (snd (getAccounts (mock_runtime (\<lambda>t. 0)) (mock_client ''DOWN''))) = None
   \<and> fst (getAccounts (mock_runtime (\<lambda>t. 0)) (mock_client ''Ok'')) =
       Inr [(''1234'', account_1234), (''5678'', account_5678)]"
proof -
  let ?rt = "mock_runtime (\<lambda>t. 0)"
  have down: "toLowerCase ''DOWN'' \<noteq> ''ok''" by (simp add: toLowerCase_def)
  have ok: "toLowerCase ''Ok'' = ''ok''" by (simp add: toLowerCase_ok_iff)
  have r: "status \<lparr>status = 200, resp_text = None,
                   json = AccountsJson (mock_accounts_response st)\<rparr> = 200"
          "json \<lparr>status = 200, resp_text = None,
                 json = AccountsJson (mock_accounts_response st)\<rparr>
             = AccountsJson (mock_accounts_response st)" for st
    by simp_all
  show ?thesis
    using C9_backend_status [OF mock_client_unset mock_evaluator_accounts r mock_status,
                             of "''DOWN''" ?rt]
      C9_backend_status [OF mock_client_unset mock_evaluator_accounts r mock_status,
                         of "''Ok''" ?rt]
      down ok
    by (simp add: mock_assets mock_accountMap)
qed

section \<open>The cache\<close>

lemma getTransactions_first_fetch:
  assumes "accounts self = None" and "ids \<noteq> []" and "date_message rt start end_date = []"
  shows "account_fetches (snd (getTransactions_method rt self ids start end_date))
           = account_fetches self @ [(accounts_url, getAccountsOptions rt)]"
proof -
  obtain r self1 where g: "getAccounts rt self = (r, self1)" by (cases "getAccounts rt self")
  have c1: "account_fetches self1 = account_fetches self @ [(accounts_url, getAccountsOptions rt)]"
    using getAccounts_calls [of rt self] g assms(1) by (simp add: account_fetches_def)
  show ?thesis
  proof (cases r)
    case (Inl e)
    then show ?thesis
      using getTransactions_resolution_fails [OF assms(3) _ assms(2), of self e self1] g c1 by simp
  next
    case (Inr m)
    have f: "\<And>options r s. fetch self1 transactions_url options = (r, s) \<Longrightarrow>
               account_fetches s = account_fetches self1"
    proof -
      fix options r s
      assume "fetch self1 transactions_url options = (r, s)"
      then have "s = snd (fetch self1 transactions_url options)" by simp
      then show "account_fetches s = account_fetches self1"
        by (simp add: fetch_calls account_fetches_def urls_differ)
    qed
    show ?thesis
      using getTransactions_after_resolution [OF assms(3) _ assms(2), of self m self1] g Inr c1 f
      by (auto split: sum.splits prod.splits)
  qed
qed

text \<open>
  Claim C6. On one client: once the cache is filled, getAccounts returns it as it is, and
  however many getTransactions calls follow, with however many identifiers, the cache stays
  and no further account-list request is made. With the cache unset, getAccounts makes
  exactly one account-list request; if it succeeds the cache is the map it returns, if it
  fails the cache is left unset, and the next getAccounts makes the request again. A
  getTransactions call with valid dates and at least one identifier that starts with the
  cache unset makes exactly one account-list request.
\<close>

theorem C6_account_cache:
  "(accounts self = Some m \<longrightarrow>
      getAccounts rt self = (Inr m, self)
      \<and> accounts (getTransactions_in_turn rt self reqs) = Some m
      \<and> account_fetches (getTransactions_in_turn rt self reqs) = account_fetches self)
   \<and> (accounts self = None \<longrightarrow>
        calls (snd (getAccounts rt self)) = calls self @ [(accounts_url, getAccountsOptions rt)]
        \<and> (case fst (getAccounts rt self) of
              Inr m' \<Rightarrow> accounts (snd (getAccounts rt self)) = Some m'
            | Inl e \<Rightarrow>
                accounts (snd (getAccounts rt self)) = None
                \<and> calls (snd (getAccounts rt (snd (getAccounts rt self))))
                    = calls self @ [(accounts_url, getAccountsOptions rt),
                                    (accounts_url, getAccountsOptions rt)]))
   \<and> (accounts self = None \<and> ids \<noteq> [] \<and> date_message rt start end_date = [] \<longrightarrow>
        account_fetches (snd (getTransactions_method rt self ids start end_date))
          = account_fetches self @ [(accounts_url, getAccountsOptions rt)])"
proof -
  have a: "accounts self = Some m \<Longrightarrow> getAccounts rt self = (Inr m, self)"
    by (rule getAccounts_cached)
  have b: "accounts self = Some m \<Longrightarrow>
      accounts (getTransactions_in_turn rt self reqs) = Some m
      \<and> account_fetches (getTransactions_in_turn rt self reqs) = account_fetches self"
    by (rule getTransactions_in_turn_cached)
  have c: "accounts self = None \<Longrightarrow>
        calls (snd (getAccounts rt self)) = calls self @ [(accounts_url, getAccountsOptions rt)]"
    by (simp add: getAccounts_calls)
  have d: "accounts self = None \<Longrightarrow>
        (case fst (getAccounts rt self) of
              Inr m' \<Rightarrow> accounts (snd (getAccounts rt self)) = Some m'
            | Inl e \<Rightarrow>
                accounts (snd (getAccounts rt self)) = None
                \<and> calls (snd (getAccounts rt (snd (getAccounts rt self))))
                    = calls self @ [(accounts_url, getAccountsOptions rt),
                                    (accounts_url, getAccountsOptions rt)])"
  proof -
    assume n: "accounts self = None"
    obtain r self1 where g: "getAccounts rt self = (r, self1)" by (cases "getAccounts rt self")
    show ?thesis
    proof (cases r)
      case (Inl e)
      have "accounts self1 = None" using g Inl getAccounts_Inl_cache by blast
      then show ?thesis
        using g Inl c [OF n] getAccounts_calls [of rt self1] by simp
    next
      case (Inr m')
      then show ?thesis using g getAccounts_Inr_cache by fastforce
    qed
  qed
  have e: "accounts self = None \<and> ids \<noteq> [] \<and> date_message rt start end_date = [] \<Longrightarrow>
        account_fetches (snd (getTransactions_method rt self ids start end_date))
          = account_fetches self @ [(accounts_url, getAccountsOptions rt)]"
    using getTransactions_first_fetch by blast
  show ?thesis using a b c d e by blast
qed


lemma mock_getAccounts_down:
  "getAccounts (mock_runtime tza) (mock_client ''DOWN'') =
     (Inl (FidelityError ''Failed to parse get_accounts response: Fidelity backend not ok DOWN''),
      \<lparr>evaluator = MockEvaluator ''DOWN'', accounts = None,
       calls = [(accounts_url, JObject [(''method'', JString ''POST'')])]\<rparr>)"
  by (simp add: getAccounts_def fetchAccounts_def fetch_def mock_client_def MockEvaluator_def
      parse_accounts_def mock_accounts_response_def getAccountsOptions_def
      mock_runtime_def toLowerCase_def)

lemma mock_getAccountsOptions:
  "getAccountsOptions (mock_runtime tza) = JObject [(''method'', JString ''POST'')]"
  by (simp add: getAccountsOptions_def mock_runtime_def)

lemma mock_midnights:
  "1764288000000 mod msPerDay = 0" "1764633600000 mod msPerDay = 0"
  "1704153600000 mod msPerDay = 0" "1704067200000 mod msPerDay = 0"
  by (simp_all add: msPerDay_def)

lemma mock_fidelityDate:
  "fidelityDate (mock_runtime tza) (Date_ms 1764288000000) = Inr ''1764306000''"
  "fidelityDate (mock_runtime tza) (Date_ms 1764633600000) = Inr ''1764651600''"
  "fidelityDate (mock_runtime tza) (Date_ms 1704153600000) = Inr ''1704171600''"
  "fidelityDate (mock_runtime tza) (Date_ms 1704067200000) = Inr ''1704085200''"
  by code_simp+

lemma mock_fetch_transactions:
  "evaluator self = MockEvaluator st \<Longrightarrow>
   fetch self transactions_url options =
     (Inr (TransactionsJson mock_transactions_response),
      self\<lparr>calls := calls self @ [(transactions_url, options)]\<rparr>)"
  by (simp add: fetch_def MockEvaluator_def urls_differ)

lemma mock_parse_transactions:
  "parse_transactions rt (TransactionsJson mock_transactions_response) =
     Inr (map (historyEntryToTransaction rt) mock_history)"
  by (simp add: parse_transactions_def mock_transactions_response_def)

theorem C6_account_cache_witness:
  "getAccounts (mock_runtime (\<lambda>t. 0))
     \<lparr>evaluator = MockEvaluator ''OK'',
      accounts = Some [(''1234'', account_1234), (''5678'', account_5678)],
      calls = [(accounts_url, JObject [(''method'', JString ''POST'')])]\<rparr>
     = (Inr [(''1234'', account_1234), (''5678'', account_5678)],
        \<lparr>evaluator = MockEvaluator ''OK'',
         accounts = Some [(''1234'', account_1234), (''5678'', account_5678)],
         calls = [(accounts_url, JObject [(''method'', JString ''POST'')])]\<rparr>)
   \<and> account_fetches
        (getTransactions_in_turn (mock_runtime (\<lambda>t. 0))
           \<lparr>evaluator = MockEvaluator ''OK'',
            accounts = Some [(''1234'', account_1234), (''5678'', account_5678)],
            calls = [(accounts_url, JObject [(''method'', JString ''POST'')])]\<rparr>
           [([''1234'', ''5678''], Date_ms 1764288000000, Date_ms 1764633600000),
            ([''5678'', ''1234'', ''5678''], Date_ms 1764288000000, Date_ms 1764633600000)])
       = [(accounts_url, JObject [(''method'', JString ''POST'')])]
   \<and> calls (snd (getAccounts (mock_runtime (\<lambda>t. 0)) (mock_client ''OK'')))
       = [(accounts_url, JObject [(''method'', JString ''POST'')])]
   \<and> accounts (snd (getAccounts (mock_runtime (\<lambda>t. 0)) (mock_client ''OK'')))
       = Some [(''1234'', account_1234), (''5678'', account_5678)]
   \<and> accounts (snd (getAccounts (mock_runtime (\<lambda>t. 0)) (mock_client ''DOWN''))) = None
   \<and> calls (snd (getAccounts (mock_runtime (\<lambda>t. 0))
                    (snd (getAccounts (mock_runtime (\<lambda>t. 0)) (mock_client ''DOWN'')))))
       = [(accounts_url, JObject [(''method'', JString ''POST'')]),
          (accounts_url, JObject [(''method'', JString ''POST'')])]
   \<and> account_fetches
        (snd (getTransactions_method (mock_runtime (\<lambda>t. 0)) (mock_client ''OK'')
                [''1234'', ''5678'', ''1234''] (Date_ms 1764288000000) (Date_ms 1764633600000)))
       = [(accounts_url, JObject [(''method'', JString ''POST'')])]"
proof -
  let ?rt = "mock_runtime (\<lambda>t. 0)"
  let ?m = "[(''1234'', account_1234), (''5678'', account_5678)]"
  let ?cached = "\<lparr>evaluator = MockEvaluator ''OK'', accounts = Some ?m,
                  calls = [(accounts_url, JObject [(''method'', JString ''POST'')])]\<rparr>"
  have dm: "date_message ?rt (Date_ms 1764288000000) (Date_ms 1764633600000) = []"
    by (rule date_message_midnight) (rule mock_midnights)+
  have af: "account_fetches ?cached = [(accounts_url, JObject [(''method'', JString ''POST'')])]"
           "account_fetches (mock_client ''OK'') = []"
           "calls (mock_client ''OK'') = []" "calls (mock_client ''DOWN'') = []"
    by (simp_all add: account_fetches_def mock_client_def)
  show ?thesis
    using C6_account_cache [where self = ?cached and m = ?m and rt = ?rt
        and reqs = "[([''1234'', ''5678''], Date_ms 1764288000000, Date_ms 1764633600000),
            ([''5678'', ''1234'', ''5678''], Date_ms 1764288000000, Date_ms 1764633600000)]"]
      C6_account_cache [where self = "mock_client ''OK''" and rt = ?rt
        and ids = "[''1234'', ''5678'', ''1234'']" and start = "Date_ms 1764288000000"
        and end_date = "Date_ms 1764633600000"]
      C6_account_cache [where self = "mock_client ''DOWN''" and rt = ?rt]
    by (simp add: dm af mock_client_unset mock_getAccountsOptions mock_getAccounts_ok
          mock_getAccounts_down)
qed

section \<open>Identifiers that are not accounts\<close>

text \<open>
  Claim C5. When both dates are exact days, the account list resolves (from the cache or
  by a successful request) to the map \<open>m\<close>, and some identifier is not a key of \<open>m\<close>,
  getTransactions fails with the FidelityError \<open>Account(s) not found:\<close> followed by the
  missing identifiers joined by a comma and a space: every missing identifier of the input,
  once, in the order of first occurrence. The client is left as getAccounts left it: at most
  the account-list request was made, and no transaction request.
\<close>

theorem C5_missing_accounts:
  assumes "s mod msPerDay = 0" and "e mod msPerDay = 0"
    and "getAccounts rt self = (Inr m, self1)"
    and "\<exists>i \<in> set ids. Map_get m i = None"
  shows "getTransactions_method rt self ids (Date_ms s) (Date_ms e) =
           (Inl (FidelityError
                   (''Account(s) not found: ''
                    @ join '', '' (filter (\<lambda>i. Map_get m i = None) (first_occurrences ids)))),
            self1)
       \<and> set (filter (\<lambda>i. Map_get m i = None) (first_occurrences ids))
           = {i \<in> set ids. Map_get m i = None}
       \<and> distinct (filter (\<lambda>i. Map_get m i = None) (first_occurrences ids))
       \<and> (calls self1 = calls self
            \<or> calls self1 = calls self @ [(accounts_url, getAccountsOptions rt)])"
proof -
  have dm: "date_message rt (Date_ms s) (Date_ms e) = []"
    using assms(1,2) by (rule date_message_midnight)
  have ne: "ids \<noteq> []" using assms(4) by auto
  have st: "set (filter (\<lambda>i. Map_get m i = None) (first_occurrences ids))
           = {i \<in> set ids. Map_get m i = None}"
    by (auto simp: set_first_occurrences)
  then have "filter (\<lambda>i. Map_get m i = None) (first_occurrences ids) \<noteq> []"
    using assms(4) by (metis (mono_tags, lifting) empty_iff empty_set mem_Collect_eq)
  then have r: "getTransactions_method rt self ids (Date_ms s) (Date_ms e) =
           (Inl (FidelityError
                   (''Account(s) not found: ''
                    @ join '', '' (filter (\<lambda>i. Map_get m i = None) (first_occurrences ids)))),
            self1)"
    using getTransactions_after_resolution [OF dm assms(3) ne] by simp
  have c: "calls self1 = calls self
            \<or> calls self1 = calls self @ [(accounts_url, getAccountsOptions rt)]"
    using getAccounts_calls [of rt self] assms(3) by (simp split: if_splits)
  show ?thesis using r st c distinct_first_occurrences [of ids] by simp
qed

theorem C5_missing_accounts_witness:
  "getTransactions_method (mock_runtime (\<lambda>t. 0)) (mock_client ''OK'')
     [''1234'', ''9'', ''8'', ''9''] (Date_ms 1764288000000) (Date_ms 1764633600000)
   = (Inl (FidelityError ''Account(s) not found: 9, 8''),
      \<lparr>evaluator = MockEvaluator ''OK'',
       accounts = Some [(''1234'', account_1234), (''5678'', account_5678)],
       calls = [(accounts_url, JObject [(''method'', JString ''POST'')])]\<rparr>)"
proof -
  let ?m = "[(''1234'', account_1234), (''5678'', account_5678)]"
  have ex: "\<exists>i \<in> set [''1234'', ''9'', ''8'', ''9'']. Map_get ?m i = None"
    by (simp add: Map_get_def)
  have fo: "filter (\<lambda>i. Map_get ?m i = None) (first_occurrences [''1234'', ''9'', ''8'', ''9''])
             = [''9'', ''8'']"
    by (simp add: first_occurrences_def Map_get_def)
  show ?thesis
    using C5_missing_accounts [OF mock_midnights(1) mock_midnights(2) mock_getAccounts_ok ex,
        of "\<lambda>t. 0"]
    by (simp add: fo)
qed

section \<open>No identifiers\<close>



section \<open>Duplicate identifiers\<close>

lemma stringify_inj:
  assumes "stringify a = stringify b"
  shows "a = b"
proof -
  have "JSON_parse (stringify a) = JSON_parse (stringify b)"
    using assms by (rule arg_cong)
  then show ?thesis by (simp only: JSON_parse_stringify option.inject)
qed

text \<open>
  Claim C2, as amended. When both dates are exact days, the account list resolves to the
  map \<open>m\<close> and every identifier is a key of \<open>m\<close>, getTransactions builds the transaction
  request from one resolved account for each distinct identifier, in the order in which the
  identifiers first occur in the input; a repeated identifier adds no further entry. For
  identifiers without repetition that is one account per identifier, in the input order.
\<close>

theorem C2_resolved_accounts:
  assumes "s mod msPerDay = 0" and "e mod msPerDay = 0"
    and "getAccounts rt self = (Inr m, self1)"
    and "ids \<noteq> []"
    and "\<forall>i \<in> set ids. Map_get m i \<noteq> None"
    and "getTransactionsOptions rt (map (\<lambda>i. the (Map_get m i)) (first_occurrences ids))
           (Date_ms s) (Date_ms e) = Inr options"
  shows "calls (snd (getTransactions_method rt self ids (Date_ms s) (Date_ms e)))
           = calls self1 @ [(transactions_url, options)]
       \<and> distinct (first_occurrences ids)
       \<and> set (first_occurrences ids) = set ids
       \<and> (distinct ids \<longrightarrow> first_occurrences ids = ids)"
proof -
  have dm: "date_message rt (Date_ms s) (Date_ms e) = []"
    using assms(1,2) by (rule date_message_midnight)
  have all: "filter (\<lambda>i. Map_get m i \<noteq> None) (first_occurrences ids) = first_occurrences ids"
    using assms(5) by (simp add: set_first_occurrences)
  have none: "filter (\<lambda>i. Map_get m i = None) (first_occurrences ids) = []"
    using assms(5) by (simp add: set_first_occurrences)
  have "snd (getTransactions_method rt self ids (Date_ms s) (Date_ms e))
          = snd (fetch self1 transactions_url options)"
    unfolding getTransactions_after_resolution [OF dm assms(3,4)] all none assms(6)
    by (simp only: snd_outcome sum.case if_False not_True_eq_False simp_thms)
  then show ?thesis
    by (simp add: fetch_calls distinct_first_occurrences set_first_occurrences
        first_occurrences_distinct)
qed

lemma mock_options:
  "getTransactionsOptions (mock_runtime tza) accts (Date_ms 1764288000000) (Date_ms 1764633600000)
     = Inr (JObject [(''method'', JString ''POST''),
                     (''body'', JString (stringify (json_of_req
                        (render_getTransactionsBody mock_body_template
                           \<lparr>ctx_accounts = accountDicts accts, ctx_start = ''1764306000'',
                            ctx_end = ''1764651600''\<rparr>))))])"
  using getTransactionsOptions_Inr
          [OF getTransactionsBody_Inr [OF mock_fidelityDate(1) mock_fidelityDate(2)],
           of tza accts]
  by (simp add: mock_runtime_def del: stringify.simps)

theorem C2_resolved_accounts_witness:
  "calls (snd (getTransactions_method (mock_runtime (\<lambda>t. 0)) (mock_client ''OK'')
                 [''5678'', ''1234'', ''5678''] (Date_ms 1764288000000) (Date_ms 1764633600000)))
     = [(accounts_url, JObject [(''method'', JString ''POST'')]),
        (transactions_url,
         JObject [(''method'', JString ''POST''),
                  (''body'', JString (stringify (json_of_req
                     (render_getTransactionsBody mock_body_template
                        \<lparr>ctx_accounts = accountDicts [account_5678, account_1234],
                         ctx_start = ''1764306000'', ctx_end = ''1764651600''\<rparr>))))])]"
proof -
  let ?m = "[(''1234'', account_1234), (''5678'', account_5678)]"
  have fo: "first_occurrences [''5678'', ''1234'', ''5678''] = [''5678'', ''1234'']"
    by (simp add: first_occurrences_def)
  have al: "\<forall>i \<in> set [''5678'', ''1234'', ''5678'']. Map_get ?m i \<noteq> None"
    by (simp add: Map_get_def)
  have ac: "map (\<lambda>i. the (Map_get ?m i)) (first_occurrences [''5678'', ''1234'', ''5678''])
              = [account_5678, account_1234]"
    by (simp add: fo Map_get_def)
  have ne: "[''5678'', ''1234'', ''5678''] \<noteq> []" by simp
  show ?thesis
    using C2_resolved_accounts [OF mock_midnights(1) mock_midnights(2) mock_getAccounts_ok ne al,
        of "\<lambda>t. 0", unfolded ac, OF mock_options]
    by simp
qed

text \<open>The claim as it was stated fails: for the identifiers 1234, 1234 the request that
  getTransactions makes is the one built from the single account 1234, and the request
  built from two entries is another one.\<close>

theorem C2_duplicates_counterexample:
  "getTransactionsOptions (mock_runtime (\<lambda>t. 0)) [account_1234]
       (Date_ms 1764288000000) (Date_ms 1764633600000)
     = Inr (snd (List.last (calls (snd (getTransactions_method (mock_runtime (\<lambda>t. 0))
                                     (mock_client ''OK'') [''1234'', ''1234'']
                                     (Date_ms 1764288000000) (Date_ms 1764633600000))))))
   \<and> getTransactionsOptions (mock_runtime (\<lambda>t. 0)) [account_1234, account_1234]
         (Date_ms 1764288000000) (Date_ms 1764633600000)
       \<noteq> getTransactionsOptions (mock_runtime (\<lambda>t. 0)) [account_1234]
           (Date_ms 1764288000000) (Date_ms 1764633600000)"
proof -
  let ?rt = "mock_runtime (\<lambda>t. 0)"
  let ?m = "[(''1234'', account_1234), (''5678'', account_5678)]"
  let ?d1 = "Date_ms 1764288000000" and ?d2 = "Date_ms 1764633600000"
  have dm: "date_message ?rt ?d1 ?d2 = []"
    by (rule date_message_midnight) (rule mock_midnights)+
  have fo: "first_occurrences [''1234'', ''1234''] = [''1234'']"
    by (simp add: first_occurrences_def)
  have ne: "[''1234'', ''1234''] \<noteq> []" by simp
  have "snd (getTransactions_method ?rt (mock_client ''OK'') [''1234'', ''1234''] ?d1 ?d2)
          = snd (fetch (snd (getAccounts ?rt (mock_client ''OK''))) transactions_url
                   (JObject [(''method'', JString ''POST''),
                     (''body'', JString (stringify (json_of_req
                        (render_getTransactionsBody mock_body_template
                           \<lparr>ctx_accounts = accountDicts [account_1234],
                            ctx_start = ''1764306000'', ctx_end = ''1764651600''\<rparr>))))]))"
    unfolding getTransactions_after_resolution [OF dm mock_getAccounts_ok ne] fo
    by (simp add: Map_get_def mock_options mock_getAccounts_ok snd_outcome
        del: stringify.simps)
  then have a: "getTransactionsOptions ?rt [account_1234] ?d1 ?d2
     = Inr (snd (List.last (calls (snd (getTransactions_method ?rt
                                     (mock_client ''OK'') [''1234'', ''1234''] ?d1 ?d2)))))"
    by (simp add: fetch_calls mock_options del: stringify.simps)
  have "json_of_req (render_getTransactionsBody mock_body_template
            \<lparr>ctx_accounts = accountDicts [account_1234, account_1234],
             ctx_start = ''1764306000'', ctx_end = ''1764651600''\<rparr>)
        \<noteq> json_of_req (render_getTransactionsBody mock_body_template
            \<lparr>ctx_accounts = accountDicts [account_1234],
             ctx_start = ''1764306000'', ctx_end = ''1764651600''\<rparr>)"
    by (simp add: json_of_req_def json_of_vars_def render_getTransactionsBody_def
        accountDicts_def)
  then have b: "getTransactionsOptions ?rt [account_1234, account_1234] ?d1 ?d2
       \<noteq> getTransactionsOptions ?rt [account_1234] ?d1 ?d2"
    using stringify_inj by (auto simp add: mock_options simp del: stringify.simps)
  show ?thesis using a b by blast
qed

section \<open>A range that ends before it starts\<close>

text \<open>
  Claim C1, where the code does not do what the claim says. The validation of
  getTransactions looks at each date on its own and never compares the two: for the start
  2 January 2024 and the end 1 January 2024, both exact days, start is after end, yet
  getTransactions raises no validation error; it makes the transaction request and returns
  the transactions of the response.
\<close>

theorem C1_start_after_end_accepted:
  "date_gt (Date_ms 1704153600000) (Date_ms 1704067200000)
   \<and> fst (getTransactions_method (mock_runtime (\<lambda>t. 0)) (mock_client ''OK'') []
            (Date_ms 1704153600000) (Date_ms 1704067200000))
       = Inr (map (historyEntryToTransaction (mock_runtime (\<lambda>t. 0))) mock_history)
   \<and> map fst (calls (snd (getTransactions_method (mock_runtime (\<lambda>t. 0)) (mock_client ''OK'') []
                             (Date_ms 1704153600000) (Date_ms 1704067200000))))
       = [transactions_url]"
proof -
  let ?rt = "mock_runtime (\<lambda>t. 0)"
  have dm: "date_message ?rt (Date_ms 1704153600000) (Date_ms 1704067200000) = []"
    by (rule date_message_midnight) (rule mock_midnights)+
  obtain options where o: "getTransactionsOptions ?rt [] (Date_ms 1704153600000)
                              (Date_ms 1704067200000) = Inr options"
    using getTransactionsOptions_Inr
            [OF getTransactionsBody_Inr [OF mock_fidelityDate(3) mock_fidelityDate(4)]]
    by blast
  have ev: "evaluator (mock_client ''OK'') = MockEvaluator ''OK''"
    by (simp add: mock_client_def)
  have cl: "calls (mock_client ''OK'') = []"
    by (simp add: mock_client_def)
  have th: "getTransactions_method ?rt (mock_client ''OK'') [] (Date_ms 1704153600000)
              (Date_ms 1704067200000)
            = (Inr (map (historyEntryToTransaction ?rt) mock_history),
               (mock_client ''OK'')\<lparr>calls := calls (mock_client ''OK'')
                  @ [(transactions_url, options)]\<rparr>)"
    unfolding getTransactions_no_ids [OF dm o, of "mock_client ''OK''"]
    by (simp only: mock_fetch_transactions [OF ev] mock_parse_transactions prod.case sum.case)
  show ?thesis
    by (simp only: th fst_conv snd_conv) (simp add: cl date_gt_def)
qed


section \<open>The amount of a history entry\<close>













section \<open>The transaction request\<close>

lemma mock_january:
  "fidelityDate (mock_runtime tza) (Date_ms 1706659200000) = Inr ''1706677200''"
  by code_simp

lemma last_flags:
  assumes "accts \<noteq> []"
  shows "map AccountDict.last (accountDicts accts) = replicate (length accts - 1) False @ [True]"
proof (rule nth_equalityI)
  show "length (map AccountDict.last (accountDicts accts))
        = length (replicate (length accts - 1) False @ [True])"
    using assms by (cases accts) (simp_all add: accountDicts_def)
next
  fix i
  assume "i < length (map AccountDict.last (accountDicts accts))"
  then have i: "i < length accts" by (simp add: accountDicts_def)
  then show "map AccountDict.last (accountDicts accts) ! i
             = (replicate (length accts - 1) False @ [True]) ! i"
    by (auto simp add: accountDicts_def nth_append)
qed

lemma json_plain_quote: "json_plain s \<Longrightarrow> quote s = CHR 0x22 # s @ [CHR 0x22]"
proof -
  assume p: "json_plain s"
  have "concat (map escape_char s) = s"
    using p
  proof (induction s)
    case Nil
    show ?case by simp
  next
    case (Cons c cs)
    have c: "32 \<le> (of_char c :: nat)" "c \<noteq> CHR 0x22" "c \<noteq> CHR 0x5C"
      using Cons.prems by (simp_all add: json_plain_def)
    have n: "(of_char c :: nat) \<noteq> 34" "(of_char c :: nat) \<noteq> 92"
      using c(2,3) by (simp_all add: char_eq_code)
    have "escape_char c = [c]"
      using c(1) n by (simp add: escape_char_def Let_def)
    moreover have "concat (map escape_char cs) = cs"
      using Cons by (simp add: json_plain_def)
    ultimately show ?case by simp
  qed
  then show ?thesis by (simp add: quote_def)
qed

lemma digit_plain: "is_digit c \<Longrightarrow> 32 \<le> (of_char c :: nat) \<and> c \<noteq> CHR 0x22 \<and> c \<noteq> CHR 0x5C"
  by (auto simp add: is_digit_def char_eq_code)

lemma json_plain_digits: "list_all is_digit s \<Longrightarrow> json_plain s"
  by (induction s) (simp_all add: json_plain_def digit_plain)

lemma json_plain_show_int: "json_plain (show_int n)"
proof (cases "n < 0")
  case True
  have "list_all is_digit (show_digits (- n))"
    using show_digits_props [of "- n"] True by simp
  then have "json_plain (show_digits (- n))" by (rule json_plain_digits)
  then show ?thesis using True by (simp add: show_int_def json_plain_def)
next
  case False
  have "list_all is_digit (show_digits n)"
    using show_digits_props [of n] False by simp
  then have "json_plain (show_digits n)" by (rule json_plain_digits)
  then show ?thesis using False by (simp add: show_int_def)
qed

lemma b64_char_plain:
  "32 \<le> (of_char (b64_char n) :: nat) \<and> b64_char n \<noteq> CHR 0x22 \<and> b64_char n \<noteq> CHR 0x5C"
  by (auto simp add: b64_char_def char_eq_code)

lemma json_plain_base64: "json_plain (base64 bs)"
  by (induction bs rule: base64.induct) (simp_all add: json_plain_def b64_char_plain)

lemma json_plain_encodeAccountName: "json_plain (encodeAccountName nm)"
  by (simp add: encodeAccountName_def json_plain_base64)

lemma fidelityDate_plain: "fidelityDate rt d = Inr s \<Longrightarrow> json_plain s"
  by (auto simp add: fidelityDate_def json_plain_show_int split: sum.splits)

lemma doc_paths:
  "json_path [''variables'', ''acctDetailList''] (json_of_req doc)
     = Some (JArray (map json_of_detail (acctDetailList (variables doc))))"
  "json_path [''variables'', ''searchCriteriaDetail'', ''txnFromDate''] (json_of_req doc)
     = Some (JString (txnFromDate (searchCriteriaDetail (variables doc))))"
  "json_path [''variables'', ''searchCriteriaDetail'', ''txnToDate''] (json_of_req doc)
     = Some (JString (txnToDate (searchCriteriaDetail (variables doc))))"
  by (simp_all add: json_of_req_def json_of_vars_def json_of_criteria_def json_member_def)

lemma detail_members:
  "json_member ''acctNum'' (json_of_detail d) = Some (JString (AcctDetailModel.acctNum d))"
  "json_member ''name'' (json_of_detail d) = Some (JString (AcctDetailModel.name d))"
  by (simp_all add: json_of_detail_def json_member_def)

lemma parsed_doc:
  "parsed_at ks (stringify (json_of_req doc)) = json_path ks (json_of_req doc)"
  by (simp only: parsed_at_def JSON_parse_stringify option.case)

lemma parsed_details:
  "parsed_column [''variables'', ''acctDetailList''] ''acctNum'' (stringify (json_of_req doc))
     = Some (map (\<lambda>d. Some (JString (AcctDetailModel.acctNum d))) (acctDetailList (variables doc)))"
  "parsed_column [''variables'', ''acctDetailList''] ''name'' (stringify (json_of_req doc))
     = Some (map (\<lambda>d. Some (JString (AcctDetailModel.name d))) (acctDetailList (variables doc)))"
  by (simp_all only: parsed_column_def parsed_doc doc_paths option.case json_elements_def
        jvalue.case map_map comp_def detail_members)

lemma rendered_details:
  "acctDetailList (variables (render_getTransactionsBody tpl
      \<lparr>ctx_accounts = accountDicts accts, ctx_start = s, ctx_end = e\<rparr>))
     = map (\<lambda>a. \<lparr>AcctDetailModel.acctNum = Account.number a,
                  AcctDetailModel.acctType = t_acctType tpl,
                  AcctDetailModel.name = encodeAccountName (Account.name a)\<rparr>) accts"
  by (rule nth_equalityI) (simp_all add: render_getTransactionsBody_def accountDicts_def)

text \<open>
  Claim C8. Let the sequence of accounts be not empty and let every account number be
  plain (no quote, no backslash, no control character: the rendered text is then valid
  JSON); let \<open>fidelityDate\<close> give the strings \<open>from_s\<close> and \<open>to_s\<close> of epoch seconds for
  start and end; let \<open>doc\<close> be the request document rendered for the accounts and the two
  strings, and \<open>body\<close> its JSON text. Then \<open>getTransactionsBody\<close> returns \<open>doc\<close>;
  \<open>getTransactionsOptions\<close> substitutes into the options template the JSON string encoding
  of \<open>body\<close>, and returns the options whose member \<open>body\<close> is the string \<open>body\<close>.
  Parsing that string once gives the document, in which the elements of
  \<open>variables.acctDetailList\<close> have as \<open>acctNum\<close> the numbers of the accounts, in the
  order of the input, and as \<open>name\<close> their encoded names, and in which
  \<open>variables.searchCriteriaDetail.txnFromDate\<close> and \<open>txnToDate\<close> are the strings \<open>from_s\<close>
  and \<open>to_s\<close>. The flag \<open>last\<close> of the template context is false for every account but
  the final one, for which it is true. Every value of the context is plain: the numbers
  as assumed (JSON writes them between quotes as they are), the encoded names and the two
  date strings always.
\<close>

theorem C8_transaction_request:
  assumes "accts \<noteq> []"
    and "\<forall>a \<in> set accts. json_plain (Account.number a)"
    and "fidelityDate rt start = Inr from_s"
    and "fidelityDate rt end_date = Inr to_s"
    and "doc = render_getTransactionsBody (getTransactionsBody_file rt)
                 \<lparr>ctx_accounts = accountDicts accts, ctx_start = from_s, ctx_end = to_s\<rparr>"
    and "body = stringify (json_of_req doc)"
  shows "getTransactionsBody rt accts start end_date = Inr doc
     \<and> getTransactionsOptions rt accts start end_date
         = render_getTransactionsOptions (getTransactionsOptions_file rt)
             (stringify (JString body))
     \<and> getTransactionsOptions rt accts start end_date
         = Inr (JObject (getTransactionsOptions_file rt @ [(''body'', JString body)]))
     \<and> JSON_parse body = Some (json_of_req doc)
     \<and> parsed_column [''variables'', ''acctDetailList''] ''acctNum'' body
         = Some (map (\<lambda>a. Some (JString (Account.number a))) accts)
     \<and> parsed_column [''variables'', ''acctDetailList''] ''name'' body
         = Some (map (\<lambda>a. Some (JString (encodeAccountName (Account.name a)))) accts)
     \<and> parsed_at [''variables'', ''searchCriteriaDetail'', ''txnFromDate''] body
         = Some (JString from_s)
     \<and> parsed_at [''variables'', ''searchCriteriaDetail'', ''txnToDate''] body
         = Some (JString to_s)
     \<and> map AccountDict.last (accountDicts accts)
         = replicate (length accts - 1) False @ [True]
     \<and> (\<forall>a \<in> set accts. stringify (JString (Account.number a))
                             = CHR 0x22 # Account.number a @ [CHR 0x22]
                           \<and> json_plain (encodeAccountName (Account.name a)))
     \<and> json_plain from_s \<and> json_plain to_s"
proof -
  have body: "getTransactionsBody rt accts start end_date = Inr doc"
    unfolding assms(5) using assms(3,4) by (rule getTransactionsBody_Inr)
  have opts: "getTransactionsOptions rt accts start end_date
         = render_getTransactionsOptions (getTransactionsOptions_file rt)
             (stringify (JString body))"
    by (simp only: getTransactionsOptions_def body sum.case assms(6))
  have opts2: "getTransactionsOptions rt accts start end_date
         = Inr (JObject (getTransactionsOptions_file rt @ [(''body'', JString body)]))"
    unfolding assms(6) using body by (rule getTransactionsOptions_Inr)
  have parse: "JSON_parse body = Some (json_of_req doc)"
    unfolding assms(6) by (rule JSON_parse_stringify)
  have ds: "acctDetailList (variables doc)
     = map (\<lambda>a. \<lparr>AcctDetailModel.acctNum = Account.number a,
                  AcctDetailModel.acctType = t_acctType (getTransactionsBody_file rt),
                  AcctDetailModel.name = encodeAccountName (Account.name a)\<rparr>) accts"
    unfolding assms(5) by (rule rendered_details)
  have nums: "parsed_column [''variables'', ''acctDetailList''] ''acctNum'' body
         = Some (map (\<lambda>a. Some (JString (Account.number a))) accts)"
    unfolding assms(6) by (simp add: parsed_details ds comp_def del: stringify.simps)
  have names: "parsed_column [''variables'', ''acctDetailList''] ''name'' body
         = Some (map (\<lambda>a. Some (JString (encodeAccountName (Account.name a)))) accts)"
    unfolding assms(6) by (simp add: parsed_details ds comp_def del: stringify.simps)
  have dates: "parsed_at [''variables'', ''searchCriteriaDetail'', ''txnFromDate''] body
                 = Some (JString from_s)"
              "parsed_at [''variables'', ''searchCriteriaDetail'', ''txnToDate''] body
                 = Some (JString to_s)"
    unfolding assms(6) parsed_doc doc_paths
    by (simp_all add: assms(5) render_getTransactionsBody_def)
  have flags: "map AccountDict.last (accountDicts accts)
         = replicate (length accts - 1) False @ [True]"
    using assms(1) by (rule last_flags)
  have plain: "\<forall>a \<in> set accts. stringify (JString (Account.number a))
                             = CHR 0x22 # Account.number a @ [CHR 0x22]
                           \<and> json_plain (encodeAccountName (Account.name a))"
    using assms(2) by (simp add: json_plain_quote json_plain_encodeAccountName)
  have pd1: "json_plain from_s" using assms(3) by (rule fidelityDate_plain)
  have pd2: "json_plain to_s" using assms(4) by (rule fidelityDate_plain)
  show ?thesis
    using body opts opts2 parse nums names dates flags plain pd1 pd2 by (simp only: simp_thms)
qed


lemma example_document:
  "json_of_req (render_getTransactionsBody mock_body_template
      \<lparr>ctx_accounts = accountDicts [account_111, account_222],
       ctx_start = ''1704085200'', ctx_end = ''1706677200''\<rparr>) = example_request"
  by code_simp

lemma example_text: "stringify example_request = example_body"
  by code_simp

lemma example_accounts:
  "[account_111, account_222] \<noteq> []"
  "\<forall>a \<in> set [account_111, account_222]. json_plain (Account.number a)"
  "map (\<lambda>a. Some (JString (Account.number a))) [account_111, account_222]
     = [Some (JString ''111''), Some (JString ''222'')]"
  "map (\<lambda>a. Some (JString (encodeAccountName (Account.name a)))) [account_111, account_222]
     = [Some (JString ''QQ==''), Some (JString ''Qg=='')]"
  "replicate (length [account_111, account_222] - 1) False @ [True] = [False, True]"
  by code_simp+

theorem C8_transaction_request_witness:
  "getTransactionsOptions (mock_runtime local_UTC) [account_111, account_222]
       (Date_ms 1704067200000) (Date_ms 1706659200000)
     = Inr (JObject [(''method'', JString ''POST''), (''body'', JString example_body)])
   \<and> JSON_parse example_body = Some example_request
   \<and> parsed_column [''variables'', ''acctDetailList''] ''acctNum'' example_body
       = Some [Some (JString ''111''), Some (JString ''222'')]
   \<and> parsed_column [''variables'', ''acctDetailList''] ''name'' example_body
       = Some [Some (JString ''QQ==''), Some (JString ''Qg=='')]
   \<and> parsed_at [''variables'', ''searchCriteriaDetail'', ''txnFromDate'']
         example_body
       = Some (JString ''1704085200'')
   \<and> parsed_at [''variables'', ''searchCriteriaDetail'', ''txnToDate'']
         example_body
       = Some (JString ''1706677200'')
   \<and> map AccountDict.last (accountDicts [account_111, account_222]) = [False, True]"
proof -
  have rt: "getTransactionsBody_file (mock_runtime local_UTC) = mock_body_template"
           "getTransactionsOptions_file (mock_runtime local_UTC) = [(''method'', JString ''POST'')]"
    by (simp_all add: mock_runtime_def)
  note t = C8_transaction_request
      [OF example_accounts(1,2) mock_fidelityDate(4) [of local_UTC] mock_january [of local_UTC]
          refl refl, unfolded rt example_document example_text example_accounts(3,4,5)
          append.simps]
  note c3 = t [THEN conjunct2, THEN conjunct2, THEN conjunct1]
  note c4 = t [THEN conjunct2, THEN conjunct2, THEN conjunct2, THEN conjunct1]
  note c5 = t [THEN conjunct2, THEN conjunct2, THEN conjunct2, THEN conjunct2, THEN conjunct1]
  note c6 = t [THEN conjunct2, THEN conjunct2, THEN conjunct2, THEN conjunct2, THEN conjunct2,
               THEN conjunct1]
  note c7 = t [THEN conjunct2, THEN conjunct2, THEN conjunct2, THEN conjunct2, THEN conjunct2,
               THEN conjunct2, THEN conjunct1]
  note c8 = t [THEN conjunct2, THEN conjunct2, THEN conjunct2, THEN conjunct2, THEN conjunct2,
               THEN conjunct2, THEN conjunct2, THEN conjunct1]
  note c9 = t [THEN conjunct2, THEN conjunct2, THEN conjunct2, THEN conjunct2, THEN conjunct2,
               THEN conjunct2, THEN conjunct2, THEN conjunct2, THEN conjunct1]
  show ?thesis
    using c3 c4 c5 c6 c7 c8 c9 by (intro conjI)
qed


section \<open>The calendar\<close>

text \<open>The first day of the next year is 365 or 366 days after the first day of a year, and
  \<open>YearFromDay\<close> is the year in which a day lies: the calendar functions are those of the
  ECMAScript specification.\<close>

lemma div_succ:
  assumes "0 < (m::int)"
  shows "(a + 1) div m = a div m + (if (a + 1) mod m = 0 then 1 else 0)"
proof (cases "a mod m + 1 < m")
  case True
  have e: "a + 1 = m * (a div m) + (a mod m + 1)" by simp
  have p: "0 \<le> a mod m" using assms by simp
  then have r: "0 \<le> a mod m + 1" by simp
  have "(a + 1) div m = a div m" using e r True by (rule int_div_pos_eq)
  moreover have "(a + 1) mod m = a mod m + 1" using e r True by (rule int_mod_pos_eq)
  ultimately show ?thesis using p by simp
next
  case False
  have "a mod m < m" using assms by simp
  then have m: "a mod m + 1 = m" using False by simp
  have "a + 1 = m * (a div m) + (a mod m + 1)" by simp
  also have "\<dots> = m * (a div m) + m" by (simp only: m)
  also have "\<dots> = m * (a div m + 1) + 0" by (simp add: algebra_simps)
  finally have e: "a + 1 = m * (a div m + 1) + 0" .
  have z: "(0::int) \<le> 0" by simp
  have "(a + 1) div m = a div m + 1" using e z assms by (rule int_div_pos_eq)
  moreover have "(a + 1) mod m = 0" using e z assms by (rule int_mod_pos_eq)
  ultimately show ?thesis by simp
qed

lemma mod_shift:
  "((y::int) - 1968) mod 4 = y mod 4"
  "((y::int) - 1900) mod 100 = y mod 100"
  "((y::int) - 1600) mod 400 = y mod 400"
proof -
  have "(y + 4 * (- 492)) mod 4 = y mod 4" by (rule mod_mult_self2)
  then show "(y - 1968) mod 4 = y mod 4" by simp
  have "(y + 100 * (- 19)) mod 100 = y mod 100" by (rule mod_mult_self2)
  then show "(y - 1900) mod 100 = y mod 100" by simp
  have "(y + 400 * (- 4)) mod 400 = y mod 400" by (rule mod_mult_self2)
  then show "(y - 1600) mod 400 = y mod 400" by simp
qed

lemma div_step:
  "((y::int) - 1968) div 4 = (y - 1969) div 4 + (if y mod 4 = 0 then 1 else 0)"
  "((y::int) - 1900) div 100 = (y - 1901) div 100 + (if y mod 100 = 0 then 1 else 0)"
  "((y::int) - 1600) div 400 = (y - 1601) div 400 + (if y mod 400 = 0 then 1 else 0)"
proof -
  have e: "y - 1969 + 1 = y - 1968" "y - 1901 + 1 = y - 1900" "y - 1601 + 1 = y - 1600"
    by simp_all
  have p: "(0::int) < 4" "(0::int) < 100" "(0::int) < 400" by simp_all
  show "(y - 1968) div 4 = (y - 1969) div 4 + (if y mod 4 = 0 then 1 else 0)"
    using div_succ [OF p(1), of "y - 1969"] unfolding e mod_shift .
  show "(y - 1900) div 100 = (y - 1901) div 100 + (if y mod 100 = 0 then 1 else 0)"
    using div_succ [OF p(2), of "y - 1901"] unfolding e mod_shift .
  show "(y - 1600) div 400 = (y - 1601) div 400 + (if y mod 400 = 0 then 1 else 0)"
    using div_succ [OF p(3), of "y - 1601"] unfolding e mod_shift .
qed

lemma mod_chain:
  "(y::int) mod 400 = 0 \<Longrightarrow> y mod 100 = 0"
  "(y::int) mod 100 = 0 \<Longrightarrow> y mod 4 = 0"
proof -
  have a: "(100::int) dvd 400" "(4::int) dvd 100" by simp_all
  {
    assume "y mod 400 = 0"
    then have "400 dvd y" by (simp only: dvd_eq_mod_eq_0)
    with a(1) have "100 dvd y" by (rule dvd_trans)
    then show "y mod 100 = 0" by (simp only: dvd_eq_mod_eq_0)
  }
  {
    assume "y mod 100 = 0"
    then have "100 dvd y" by (simp only: dvd_eq_mod_eq_0)
    with a(2) have "4 dvd y" by (rule dvd_trans)
    then show "y mod 4 = 0" by (simp only: dvd_eq_mod_eq_0)
  }
qed

lemma DayFromYear_step: "DayFromYear (y + 1) = DayFromYear y + 365 + leap_days y"
proof -
  have e: "y + 1 - 1969 = y - 1968" "y + 1 - 1901 = y - 1900" "y + 1 - 1601 = y - 1600"
          "y + 1 - 1970 = y - 1969 "
    by simp_all
  consider "y mod 400 = 0" | "y mod 400 \<noteq> 0" "y mod 100 = 0"
    | "y mod 100 \<noteq> 0" "y mod 4 = 0" | "y mod 4 \<noteq> 0"
    by blast
  then show ?thesis
  proof cases
    case 1
    note a = mod_chain(1) [OF 1]
    note b = mod_chain(2) [OF a]
    show ?thesis
      unfolding DayFromYear_def leap_days_def InLeapYear_def e div_step by (simp add: 1 a b)
  next
    case 2
    note b = mod_chain(2) [OF 2(2)]
    show ?thesis
      unfolding DayFromYear_def leap_days_def InLeapYear_def e div_step by (simp add: 2 b)
  next
    case 3
    have a: "y mod 400 \<noteq> 0" using 3(1) mod_chain(1) [of y] by (rule contrapos_nn)
    show ?thesis
      unfolding DayFromYear_def leap_days_def InLeapYear_def e div_step by (simp add: 3 a)
  next
    case 4
    have b: "y mod 100 \<noteq> 0" using 4 mod_chain(2) [of y] by (rule contrapos_nn)
    have a: "y mod 400 \<noteq> 0" using b mod_chain(1) [of y] by (rule contrapos_nn)
    show ?thesis
      unfolding DayFromYear_def leap_days_def InLeapYear_def e div_step by (simp add: 4 a b)
  qed
qed

lemma estimate_upper:
  assumes "q = (400 * n) div 146097"
  shows "DayFromYear (1970 + q) \<le> n + 1"
proof -
  have q: "146097 * q \<le> 400 * n" using assms by simp
  show ?thesis unfolding DayFromYear_def using q by simp
qed

lemma estimate_lower:
  assumes "q = (400 * n) div 146097"
  shows "n - 1 \<le> DayFromYear (1970 + q + 1)"
proof -
  have "400 * n = 146097 * q + (400 * n) mod 146097" using assms by simp
  moreover have "(400 * n) mod 146097 < 146097" by simp
  ultimately have q: "400 * n < 146097 * q + 146097" by linarith
  show ?thesis unfolding DayFromYear_def using q by simp
qed

lemma leap_days_range: "0 \<le> leap_days y \<and> leap_days y \<le> 1"
  by (simp add: leap_days_def)

lemma YearFromDay_bounds:
  "DayFromYear (YearFromDay n) \<le> n \<and> n < DayFromYear (YearFromDay n + 1)"
proof -
  define q where "q = (400 * n) div 146097"
  define y where "y = 1970 + q"
  have u: "DayFromYear y \<le> n + 1" unfolding y_def using q_def by (rule estimate_upper)
  have l: "n - 1 \<le> DayFromYear (y + 1)" unfolding y_def using q_def by (rule estimate_lower)
  have s0: "DayFromYear y = DayFromYear (y - 1) + 365 + leap_days (y - 1)"
    using DayFromYear_step [of "y - 1"] by simp
  have s1: "DayFromYear (y + 1) = DayFromYear y + 365 + leap_days y"
    by (rule DayFromYear_step)
  have s2: "DayFromYear (y + 1 + 1) = DayFromYear (y + 1) + 365 + leap_days (y + 1)"
    by (rule DayFromYear_step)
  note lp = leap_days_range [of "y - 1"] leap_days_range [of y] leap_days_range [of "y + 1"]
  have Y: "YearFromDay n = (if n < DayFromYear y then y - 1
                            else if DayFromYear (y + 1) \<le> n then y + 1 else y)"
    by (simp add: YearFromDay_def Let_def y_def q_def)
  consider "n < DayFromYear y" | "DayFromYear y \<le> n" "DayFromYear (y + 1) \<le> n"
    | "DayFromYear y \<le> n" "n < DayFromYear (y + 1)"
    by linarith
  then show ?thesis
  proof cases
    case 1
    have "YearFromDay n = y - 1" using 1 by (simp add: Y)
    moreover have "DayFromYear (y - 1) \<le> n" using u s0 lp 1 by linarith
    ultimately show ?thesis using 1 by simp
  next
    case 2
    have "YearFromDay n = y + 1" using 2 by (simp add: Y)
    moreover have "n < DayFromYear (y + 1 + 1)" using l s2 lp by linarith
    ultimately show ?thesis using 2 by simp
  next
    case 3
    have "YearFromDay n = y" using 3 by (simp add: Y)
    then show ?thesis using 3 by simp
  qed
qed

lemma DayWithinYear_bounds:
  "0 \<le> DayWithinYear n \<and> DayWithinYear n < 365 + leap_days (YearFromDay n)"
  using YearFromDay_bounds [of n] DayFromYear_step [of "YearFromDay n"]
  by (simp add: DayWithinYear_def)

section \<open>The date of a history entry\<close>



lemma transaction_date:
  "Transaction.date (historyEntryToTransaction rt h)
     = local_date rt (Date_parse rt (GetTransactionsRespHistoryModel.date h))"
  by (simp add: historyEntryToTransaction_def)

lemma mock_local_dates:
  "local_date (mock_runtime local_UTC) (Date_ms 1764288000000) = Date_ms 1764288000000"
  "local_date (mock_runtime local_EST) (Date_ms 1764288000000) = Date_ms 1764201600000"
  by code_simp+

lemma mock_parsed:
  "Date_parse (mock_runtime tza) (GetTransactionsRespHistoryModel.date (hd mock_history))
     = Date_ms 1764288000000"
  by (simp add: mock_runtime_def mock_history_def mock_Date_parse_def)

text \<open>
  Claim C4, where the code does not do what the claim says. The date string of the first
  entry of the example, \<^verbatim>\<open>2025-11-28T00:00:00.000Z\<close>, parses to the same instant in every
  environment, midnight UTC of 28 November 2025. historyEntryToTransaction reads the year,
  the month and the day of that instant with the getters of local time, so the date of the
  transaction follows the time zone of the environment: where the local time zone is UTC
  it is midnight UTC of 28 November, and where the local time zone is five hours behind
  UTC it is midnight UTC of 27 November, which is not the calendar day of the date string.
\<close>

theorem C4_date_follows_local_zone:
  "Date_parse (mock_runtime local_UTC) (GetTransactionsRespHistoryModel.date (hd mock_history))
     = Date_ms 1764288000000
   \<and> Date_parse (mock_runtime local_EST) (GetTransactionsRespHistoryModel.date (hd mock_history))
     = Date_ms 1764288000000
   \<and> Transaction.date (historyEntryToTransaction (mock_runtime local_UTC) (hd mock_history))
       = Date_ms 1764288000000
   \<and> Transaction.date (historyEntryToTransaction (mock_runtime local_EST) (hd mock_history))
       = Date_ms 1764201600000
   \<and> Transaction.date (historyEntryToTransaction (mock_runtime local_UTC) (hd mock_history))
       \<noteq> Transaction.date (historyEntryToTransaction (mock_runtime local_EST) (hd mock_history))"
  by (simp add: transaction_date mock_parsed mock_local_dates)


section \<open>The days of the zone\<close>


















end
